theory Spec2Isabelle
  imports Complex_Main
begin

section \<open>The ripple lifecycle engine of TouchRipple.tsx\<close>

text \<open>
  The component keeps its state in one React state cell (\<open>ripples\<close>) and five refs
  (\<open>nextKey\<close>, \<open>rippleCallback\<close>, \<open>ignoringMouseDown\<close>, \<open>startTimer\<close>,
  \<open>startTimerCommit\<close>). The imperative handle offers \<open>start\<close>, \<open>stop\<close> and
  \<open>pulsate\<close>. Each of them is embedded as a function on a record of that state.

  JavaScript numbers are modelled by the reals, extended with \<open>NaN\<close> for the result of
  arithmetic on \<open>undefined\<close>; rounding error of IEEE doubles and the infinities are outside
  the model.
\<close>

subsection \<open>Numbers\<close>

datatype jsnum = Num real | NaN

text \<open>\<open>undefined\<close> coerces to \<open>NaN\<close> in arithmetic.\<close>

fun toNumber :: "real option \<Rightarrow> jsnum" where
  "toNumber (Some x) = Num x"
| "toNumber None = NaN"

fun js_lift :: "(real \<Rightarrow> real) \<Rightarrow> jsnum \<Rightarrow> jsnum" where
  "js_lift f (Num x) = Num (f x)"
| "js_lift f NaN = NaN"

fun js_lift2 :: "(real \<Rightarrow> real \<Rightarrow> real) \<Rightarrow> jsnum \<Rightarrow> jsnum \<Rightarrow> jsnum" where
  "js_lift2 f (Num x) (Num y) = Num (f x y)"
| "js_lift2 f _ _ = NaN"

text \<open>\<open>Math.round\<close> rounds to the nearest integer, a tie towards plus infinity.\<close>

definition math_round :: "real \<Rightarrow> real" where
  "math_round x = of_int \<lfloor>x + 1 / 2\<rfloor>"

text \<open>
  The remainder operator \<open>%\<close> on numbers: the quotient is truncated towards zero, so the
  result has the sign of the dividend. The source only divides by the constant 2.
\<close>

definition js_rem :: "real \<Rightarrow> real \<Rightarrow> real" where
  "js_rem x y = x - y * of_int (if 0 \<le> x / y then \<lfloor>x / y\<rfloor> else \<lceil>x / y\<rceil>)"

definition js_sub :: "jsnum \<Rightarrow> jsnum \<Rightarrow> jsnum" where
  "js_sub = js_lift2 (\<lambda>x y. x - y)"

definition js_add :: "jsnum \<Rightarrow> jsnum \<Rightarrow> jsnum" where
  "js_add = js_lift2 (\<lambda>x y. x + y)"

definition js_mul :: "jsnum \<Rightarrow> jsnum \<Rightarrow> jsnum" where
  "js_mul = js_lift2 (\<lambda>x y. x * y)"

definition math_max :: "jsnum \<Rightarrow> jsnum \<Rightarrow> jsnum" where
  "math_max = js_lift2 max"

definition math_abs :: "jsnum \<Rightarrow> jsnum" where
  "math_abs = js_lift abs"

definition js_square :: "jsnum \<Rightarrow> jsnum" where
  "js_square = js_lift (\<lambda>x. x ^ 2)"

definition math_sqrt :: "jsnum \<Rightarrow> jsnum" where
  "math_sqrt = js_lift sqrt"

subsection \<open>Inputs\<close>

text \<open>
  An event is the object handed to \<open>start\<close> or \<open>stop\<close>; the code reads its \<open>type\<close>,
  \<open>clientX\<close>, \<open>clientY\<close> and \<open>touches\<close>, each of which may be absent (\<open>None\<close>). A touch
  point carries its two client coordinates. \<open>start\<close> defaults a missing event to the empty
  object. \<open>stop\<close> calls \<open>event.persist()\<close> on the events whose type is \<open>touchend\<close>;
  these are React synthetic events, on which \<open>persist\<close> has no effect on the engine, so
  the call is not part of the state.
\<close>

type_synonym touch = "real \<times> real"

record event =
  etype :: "string option"
  clientX :: "real option"
  clientY :: "real option"
  touches :: "touch list option"

definition emptyEvent :: event where
  "emptyEvent = \<lparr>etype = None, clientX = None, clientY = None, touches = None\<rparr>"

record options =
  pulsate_opt :: "bool option"
  center_opt :: "bool option"
  fakeElement_opt :: "bool option"

definition emptyOptions :: options where
  "emptyOptions = \<lparr>pulsate_opt = None, center_opt = None, fakeElement_opt = None\<rparr>"

text \<open>The result of \<open>getBoundingClientRect\<close>, and the element \<open>container.current\<close>.\<close>

record rect =
  rect_width :: real
  rect_height :: real
  rect_left :: real
  rect_top :: real

record element =
  getBoundingClientRect :: rect
  clientWidth :: real
  clientHeight :: real

text \<open>
  What a call of \<open>start\<close> finds around it: the prop \<open>center\<close> of the component and the
  mounted element, \<open>None\<close> while nothing is mounted. The box is measured anew at each call.
\<close>

record host =
  centerProp :: bool
  container :: "element option"

text \<open>A callback is opaque to the engine: it is stored and later called.\<close>

type_synonym callback = nat

subsection \<open>State\<close>

text \<open>The props of one rendered \<open>TouchRippleRipple\<close>.\<close>

record ripple =
  key :: nat
  timeout :: nat
  pulsate_prop :: bool
  rippleX :: jsnum
  rippleY :: jsnum
  rippleSize :: jsnum

text \<open>
  The argument of \<open>startCommit\<close>. The closure stored in \<open>startTimerCommit\<close> is
  \<open>() => startCommit(params)\<close>, so the ref holds the parameters.
\<close>

datatype params = Params bool jsnum jsnum jsnum "callback option"

text \<open>
  The two closures given to \<open>setTimeout\<close>: the delayed commit armed by \<open>start\<close>, and
  the repeated \<open>stop(event, cb)\<close> armed by \<open>stop\<close>.
\<close>

datatype task = CommitTask | StopTask event "callback option"

text \<open>
  \<open>timers\<close> are the timeouts of the event loop that are armed and have not fired, each
  with its handle and delay; \<open>nextTimer\<close> is the next fresh handle. \<open>ripplesChanged\<close>
  holds while \<open>setRipples\<close> has produced a new array that React has not rendered yet.
  \<open>fired\<close> logs the callbacks that have been called, oldest first.
\<close>

record engine =
  ripples :: "ripple list"
  ripplesChanged :: bool
  nextKey :: nat
  rippleCallback :: "callback option"
  ignoringMouseDown :: bool
  startTimer :: "nat option"
  startTimerCommit :: "params option"
  timers :: "(nat \<times> nat \<times> task) list"
  nextTimer :: nat
  fired :: "callback list"

definition DURATION :: nat where
  "DURATION = 550"

definition DELAY_RIPPLE :: nat where
  "DELAY_RIPPLE = 80"

text \<open>The state after mounting: the effect has run once with no callback stored.\<close>

definition mounted :: engine where
  "mounted = \<lparr>ripples = [], ripplesChanged = False, nextKey = 0, rippleCallback = None,
     ignoringMouseDown = False, startTimer = None, startTimerCommit = None, timers = [],
     nextTimer = 0, fired = []\<rparr>"

subsection \<open>Timers\<close>

text \<open>\<open>startTimer.current = setTimeout(task, delay)\<close>.\<close>

definition setStartTimer :: "task \<Rightarrow> nat \<Rightarrow> engine \<Rightarrow> engine" where
  "setStartTimer t delay s =
     s\<lparr>timers := timers s @ [(nextTimer s, delay, t)],
       startTimer := Some (nextTimer s),
       nextTimer := nextTimer s + 1\<rparr>"

text \<open>\<open>clearTimeout(h)\<close>: nothing happens for \<open>null\<close> or a handle that has fired.\<close>

definition clearTimeout :: "nat option \<Rightarrow> engine \<Rightarrow> engine" where
  "clearTimeout h s = s\<lparr>timers := filter (\<lambda>(i, d, t). Some i \<noteq> h) (timers s)\<rparr>"

subsection \<open>The effect on \<open>[ripples]\<close>\<close>

text \<open>
  The effect body (lines 141 to 146) calls the stored callback and clears the ref. It is
  registered with the dependency \<open>[ripples]\<close>, so React, which is not part of the
  repository, runs it after each render in which \<open>ripples\<close> is a new array, and not
  otherwise; \<open>render\<close> is that step of React. Calls of the handle made before the next
  render are batched into it.
\<close>

definition ripplesEffect :: "engine \<Rightarrow> engine" where
  "ripplesEffect s =
     (case rippleCallback s of
        Some c \<Rightarrow> s\<lparr>fired := fired s @ [c], rippleCallback := None\<rparr>
      | None \<Rightarrow> s)"

definition render :: "engine \<Rightarrow> engine" where
  "render s = (if ripplesChanged s then ripplesEffect (s\<lparr>ripplesChanged := False\<rparr>) else s)"

subsection \<open>\<open>startCommit\<close>\<close>

text \<open>
  \<open>startCommit\<close> (lines 164 to 203). The updater given to \<open>setRipples\<close> always returns
  a new array. It reads \<open>nextKey.current\<close> when React runs it; the model applies every
  updater at the call, so the key is the counter before its increment. The style classes of
  the instance are left out.
\<close>

fun startCommit :: "params \<Rightarrow> engine \<Rightarrow> engine" where
  "startCommit (Params pulsate' rippleX' rippleY' rippleSize' cb) s =
     s\<lparr>ripples := ripples s @
          [\<lparr>key = nextKey s, timeout = DURATION, pulsate_prop = pulsate',
            rippleX = rippleX', rippleY = rippleY', rippleSize = rippleSize'\<rparr>],
       ripplesChanged := True,
       nextKey := nextKey s + 1,
       rippleCallback := cb\<rparr>"

subsection \<open>\<open>start\<close>\<close>

text \<open>
  Destructuring \<open>undefined\<close> throws; this happens in \<open>start\<close> for an event whose
  \<open>touches\<close> list is empty, when the position is taken from the event.
\<close>

datatype error = TypeError

text \<open>
  The expression shared by \<open>sizeX\<close> and \<open>sizeY\<close> (lines 258 to 271):
  \<open>Math.max(Math.abs(c - r), r) * 2 + 2\<close>.
\<close>

definition rippleSpan :: "real \<Rightarrow> jsnum \<Rightarrow> jsnum" where
  "rippleSpan c r = js_add (js_mul (math_max (math_abs (js_sub (Num c) r)) r) (Num 2)) (Num 2)"

text \<open>
  Line 209: the option \<open>center\<close> with its default \<open>centerProp || options.pulsate\<close>,
  read as a truth value.
\<close>

definition centerOf :: "host \<Rightarrow> options \<Rightarrow> bool" where
  "centerOf h opts =
     (case center_opt opts of
        Some b \<Rightarrow> b
      | None \<Rightarrow> centerProp h \<or> pulsate_opt opts = Some True)"

text \<open>Line 222: \<open>fakeElement ? null : container.current\<close>.\<close>

definition elementOf :: "host \<Rightarrow> options \<Rightarrow> element option" where
  "elementOf h opts =
     (if (case fakeElement_opt opts of Some b \<Rightarrow> b | None \<Rightarrow> False)
      then None else container h)"

text \<open>Lines 223 to 230: the measured box, or the zero box without an element.\<close>

definition rectOf :: "element option \<Rightarrow> rect" where
  "rectOf element =
     (case element of
        Some el \<Rightarrow> getBoundingClientRect el
      | None \<Rightarrow> \<lparr>rect_width = 0, rect_height = 0, rect_left = 0, rect_top = 0\<rparr>)"

text \<open>
  Lines 239 and 240, the test on the event that sends \<open>start\<close> to the centre of the box:
  \<open>!event.clientX\<close> holds for an absent coordinate and for 0.
\<close>

definition noClientPoint :: "event \<Rightarrow> bool" where
  "noClientPoint event \<longleftrightarrow>
     (clientX event = Some 0 \<and> clientY event = Some 0)
     \<or> ((clientX event = None \<or> clientX event = Some 0) \<and> touches event = None)"

text \<open>
  Lines 207 to 211 and 222 to 273 of \<open>start\<close>: the options with their defaults, the
  measured box, the position and the size of the ripple. The result is the argument that
  \<open>start\<close> hands to \<open>startCommit\<close>, at once or through the stored closure.
\<close>

definition rippleParams :: "host \<Rightarrow> event \<Rightarrow> options \<Rightarrow> callback option \<Rightarrow> error + params" where
  "rippleParams h event opts cb =
     (let pulsate' = (case pulsate_opt opts of Some b \<Rightarrow> b | None \<Rightarrow> False);
          center = centerOf h opts;
          element = elementOf h opts;
          rect = rectOf element;
          position =
            (if center \<or> noClientPoint event
             then Inr (Num (math_round (rect_width rect / 2)),
                       Num (math_round (rect_height rect / 2)))
             else (case touches event of
                     Some [] \<Rightarrow> Inl TypeError
                   | Some ((x, y) # ts) \<Rightarrow>
                       Inr (js_lift math_round (js_sub (Num x) (Num (rect_left rect))),
                            js_lift math_round (js_sub (Num y) (Num (rect_top rect))))
                   | None \<Rightarrow>
                       Inr (js_lift math_round
                              (js_sub (toNumber (clientX event)) (Num (rect_left rect))),
                            js_lift math_round
                              (js_sub (toNumber (clientY event)) (Num (rect_top rect))))))
      in case position of
           Inl e \<Rightarrow> Inl e
         | Inr (rippleX', rippleY') \<Rightarrow>
             (let rippleSize' =
                    (if center then
                       (let size = sqrt ((2 * rect_width rect ^ 2 + rect_height rect ^ 2) / 3)
                        in Num (if js_rem size 2 = 0 then size + 1 else size))
                     else
                       (let sizeX = rippleSpan
                              (case element of Some el \<Rightarrow> clientWidth el | None \<Rightarrow> 0) rippleX';
                            sizeY = rippleSpan
                              (case element of Some el \<Rightarrow> clientHeight el | None \<Rightarrow> 0) rippleY'
                        in math_sqrt (js_add (js_square sizeX) (js_square sizeY))))
              in Inr (Params pulsate' rippleX' rippleY' rippleSize' cb)))"

text \<open>
  \<open>start\<close> (lines 205 to 298). A throw leaves the state as the statements before it made
  it, so the error comes with that state.
\<close>

definition start ::
  "host \<Rightarrow> event \<Rightarrow> options \<Rightarrow> callback option \<Rightarrow> engine \<Rightarrow> (error \<times> engine) + engine" where
  "start h event opts cb s =
     (if etype event = Some ''mousedown'' \<and> ignoringMouseDown s
      then Inr (s\<lparr>ignoringMouseDown := False\<rparr>)
      else
        (let s1 = (if etype event = Some ''touchstart''
                   then s\<lparr>ignoringMouseDown := True\<rparr> else s)
         in case rippleParams h event opts cb of
              Inl e \<Rightarrow> Inl (e, s1)
            | Inr p \<Rightarrow>
                (if touches event \<noteq> None then
                   (if startTimerCommit s1 = None
                    then Inr (setStartTimer CommitTask DELAY_RIPPLE
                                (s1\<lparr>startTimerCommit := Some p\<rparr>))
                    else Inr s1)
                 else Inr (startCommit p s1))))"

text \<open>The state a call leaves behind, whether it returned or threw.\<close>

fun state_of :: "(error \<times> engine) + engine \<Rightarrow> engine" where
  "state_of (Inr s) = s"
| "state_of (Inl (e, s)) = s"

subsection \<open>\<open>pulsate\<close>\<close>

text \<open>
  \<open>pulsate\<close> (lines 300 to 302) declares no parameter and passes two arguments to
  \<open>start\<close>: the empty event and the options \<open>{pulsate: true}\<close>. An argument given by
  the caller is dropped, as JavaScript does with surplus arguments; the model keeps it to
  say so.
\<close>

definition pulsateOptions :: options where
  "pulsateOptions = emptyOptions\<lparr>pulsate_opt := Some True\<rparr>"

definition pulsate :: "host \<Rightarrow> callback option \<Rightarrow> engine \<Rightarrow> (error \<times> engine) + engine" where
  "pulsate h arg s = start h emptyEvent pulsateOptions None s"

subsection \<open>\<open>stop\<close>\<close>

text \<open>
  \<open>stop\<close> (lines 304 to 328). Its event is a required argument of the handle's type.
  The updater of \<open>setRipples\<close> returns the array it was given when that is empty, and
  React then has nothing to render.
\<close>

definition stop :: "event \<Rightarrow> callback option \<Rightarrow> engine \<Rightarrow> engine" where
  "stop event cb s =
     (let s1 = clearTimeout (startTimer s) s
      in case (if etype event = Some ''touchend'' then startTimerCommit s1 else None) of
           Some p \<Rightarrow>
             setStartTimer (StopTask event cb) 0 ((startCommit p s1)\<lparr>startTimerCommit := None\<rparr>)
         | None \<Rightarrow>
             (let s2 = s1\<lparr>startTimerCommit := None\<rparr>;
                  s3 = (if length (ripples s2) > 0
                        then s2\<lparr>ripples := drop 1 (ripples s2), ripplesChanged := True\<rparr>
                        else s2)
              in s3\<lparr>rippleCallback := cb\<rparr>))"

subsection \<open>The event loop\<close>

text \<open>
  What a timeout does when it fires: the closure of lines 286 to 291, or the one of lines
  313 to 315.
\<close>

definition runTask :: "task \<Rightarrow> engine \<Rightarrow> engine" where
  "runTask t s =
     (case t of
        CommitTask \<Rightarrow>
          (case startTimerCommit s of
             Some p \<Rightarrow> (startCommit p s)\<lparr>startTimerCommit := None\<rparr>
           | None \<Rightarrow> s)
      | StopTask event cb \<Rightarrow> stop event cb s)"

text \<open>The timeout with handle \<open>h\<close> elapses: it leaves the armed timers and its task runs.\<close>

definition fireTimer :: "nat \<Rightarrow> engine \<Rightarrow> engine" where
  "fireTimer h s =
     (case find (\<lambda>(i, d, t). i = h) (timers s) of
        None \<Rightarrow> s
      | Some (i, d, t) \<Rightarrow> runTask t (s\<lparr>timers := filter (\<lambda>(i, d, t). i \<noteq> h) (timers s)\<rparr>))"

text \<open>Handles are fresh: every armed timer has a handle below the next one, and no two agree.\<close>

definition timers_ok :: "engine \<Rightarrow> bool" where
  "timers_ok s \<longleftrightarrow>
     list_all (\<lambda>(i, d, t). i < nextTimer s) (timers s) \<and> distinct (map fst (timers s))"

text \<open>A history of the component: calls of the handle, timeouts firing, renders.\<close>

datatype action =
    Start host event options "callback option"
  | Stop event "callback option"
  | Pulsate host
  | Fire nat
  | Render

fun step :: "action \<Rightarrow> engine \<Rightarrow> engine" where
  "step (Start h event opts cb) s = state_of (start h event opts cb s)"
| "step (Stop event cb) s = stop event cb s"
| "step (Pulsate h) s = state_of (pulsate h None s)"
| "step (Fire n) s = fireTimer n s"
| "step Render s = render s"

fun run :: "action list \<Rightarrow> engine \<Rightarrow> engine" where
  "run [] s = s"
| "run (a # as) s = run as (step a s)"

subsection \<open>The geometry in the words of the specification\<close>

text \<open>
  The specification gives the two diameters as formulas over exact numbers. They are
  written down here as it states them, and compared with what \<open>start\<close> computes below.
\<close>

definition evenInteger :: "real \<Rightarrow> bool" where
  "evenInteger x \<longleftrightarrow> x = of_int \<lfloor>x\<rfloor> \<and> even \<lfloor>x\<rfloor>"

text \<open>\<open>sqrt((2*width\<^sup>2 + height\<^sup>2)/3)\<close>, incremented by 1 if the result is an even integer.\<close>

definition centeredSize :: "real \<Rightarrow> real \<Rightarrow> real" where
  "centeredSize w h =
     (let d = sqrt ((2 * w ^ 2 + h ^ 2) / 3) in if evenInteger d then d + 1 else d)"

text \<open>\<open>sizeX = 2*max(|clientWidth - x|, x) + 2\<close>, and \<open>sizeY\<close> likewise with the height.\<close>

definition sizeOf :: "real \<Rightarrow> real \<Rightarrow> real" where
  "sizeOf c x = 2 * max \<bar>c - x\<bar> x + 2"

text \<open>\<open>sqrt(sizeX\<^sup>2 + sizeY\<^sup>2)\<close>.\<close>

definition cornerSize :: "real \<Rightarrow> real \<Rightarrow> real \<Rightarrow> real \<Rightarrow> real" where
  "cornerSize cw ch x y = sqrt ((sizeOf cw x) ^ 2 + (sizeOf ch y) ^ 2)"

subsection \<open>Names for the parts of a call\<close>

text \<open>The client size of the element the box was measured on, 0 without an element.\<close>

definition clientWidthOf :: "element option \<Rightarrow> real" where
  "clientWidthOf element = (case element of Some el \<Rightarrow> clientWidth el | None \<Rightarrow> 0)"

definition clientHeightOf :: "element option \<Rightarrow> real" where
  "clientHeightOf element = (case element of Some el \<Rightarrow> clientHeight el | None \<Rightarrow> 0)"

text \<open>The branch of \<open>stop\<close> that commits a deferred ripple early (line 309).\<close>

definition forceFire :: "event \<Rightarrow> engine \<Rightarrow> bool" where
  "forceFire event s \<longleftrightarrow> etype event = Some ''touchend'' \<and> startTimerCommit s \<noteq> None"

text \<open>The test of line 213 that makes \<open>start\<close> return at once.\<close>

definition suppressed :: "event \<Rightarrow> engine \<Rightarrow> bool" where
  "suppressed event s \<longleftrightarrow> etype event = Some ''mousedown'' \<and> ignoringMouseDown s"

text \<open>The instance that \<open>startCommit\<close> appends for given parameters and key.\<close>

fun instance_of :: "nat \<Rightarrow> params \<Rightarrow> ripple" where
  "instance_of k (Params pulsate' rippleX' rippleY' rippleSize' cb) =
     \<lparr>key = k, timeout = DURATION, pulsate_prop = pulsate',
      rippleX = rippleX', rippleY = rippleY', rippleSize = rippleSize'\<rparr>"

text \<open>The box that a call of \<open>start\<close> measures.\<close>

definition boxOf :: "host \<Rightarrow> options \<Rightarrow> rect" where
  "boxOf h opts = rectOf (elementOf h opts)"

text \<open>The state in which \<open>start\<close> goes on after lines 213 to 220.\<close>

definition afterFlag :: "event \<Rightarrow> engine \<Rightarrow> engine" where
  "afterFlag event s =
     (if etype event = Some ''touchstart'' then s\<lparr>ignoringMouseDown := True\<rparr> else s)"

text \<open>The callback among the parameters of a commit.\<close>

fun cb_of :: "params \<Rightarrow> callback option" where
  "cb_of (Params pulsate' rippleX' rippleY' rippleSize' cb) = cb"

text \<open>What the effect calls when it runs: the stored callback, if there is one.\<close>

definition called :: "engine \<Rightarrow> callback list" where
  "called s = (case rippleCallback s of Some c \<Rightarrow> [c] | None \<Rightarrow> [])"

subsection \<open>The deferral invariant\<close>

text \<open>
  At most one commit is deferred at any time: the armed timers hold no delayed commit while
  \<open>startTimerCommit\<close> is empty, and exactly one, under the handle in \<open>startTimer\<close> and
  with the delay \<open>DELAY_RIPPLE\<close>, while it is filled.
\<close>

definition isCommit :: "nat \<times> nat \<times> task \<Rightarrow> bool" where
  "isCommit e \<longleftrightarrow> snd (snd e) = CommitTask"

definition deferral_ok :: "engine \<Rightarrow> bool" where
  "deferral_ok s \<longleftrightarrow>
     timers_ok s \<and>
     (case startTimerCommit s of
        None \<Rightarrow> filter isCommit (timers s) = []
      | Some p \<Rightarrow>
          (case startTimer s of
             None \<Rightarrow> False
           | Some h \<Rightarrow> filter isCommit (timers s) = [(h, DELAY_RIPPLE, CommitTask)]))"

subsection \<open>Example inputs\<close>

text \<open>
  The box of the specification's examples: \<open>{left: 10, top: 10, width: 100, height: 50}\<close>
  with client size 100 by 50, under a component without the \<open>center\<close> prop.
\<close>

definition exampleElement :: element where
  "exampleElement =
     \<lparr>getBoundingClientRect =
        \<lparr>rect_width = 100, rect_height = 50, rect_left = 10, rect_top = 10\<rparr>,
      clientWidth = 100, clientHeight = 50\<rparr>"

definition exampleHost :: host where
  "exampleHost = \<lparr>centerProp = False, container = Some exampleElement\<rparr>"

text \<open>A component with nothing mounted to measure.\<close>

definition bareHost :: host where
  "bareHost = \<lparr>centerProp = False, container = None\<rparr>"

definition mouseDown :: "real \<Rightarrow> real \<Rightarrow> event" where
  "mouseDown x y =
     \<lparr>etype = Some ''mousedown'', clientX = Some x, clientY = Some y, touches = None\<rparr>"

definition mouseUp :: "real \<Rightarrow> real \<Rightarrow> event" where
  "mouseUp x y =
     \<lparr>etype = Some ''mouseup'', clientX = Some x, clientY = Some y, touches = None\<rparr>"

definition touchStart :: "real \<Rightarrow> real \<Rightarrow> event" where
  "touchStart x y =
     \<lparr>etype = Some ''touchstart'', clientX = None, clientY = None, touches = Some [(x, y)]\<rparr>"

text \<open>When the last finger lifts, the list of touches is empty.\<close>

definition touchEnd :: event where
  "touchEnd = \<lparr>etype = Some ''touchend'', clientX = None, clientY = None, touches = Some []\<rparr>"

definition centerOptions :: options where
  "centerOptions = emptyOptions\<lparr>center_opt := Some True\<rparr>"

text \<open>Two committed ripples, from two presses of the mouse.\<close>

definition twoRipples :: engine where
  "twoRipples =
     run [Start exampleHost (mouseDown 60 30) emptyOptions None,
          Start exampleHost (mouseDown 20 40) emptyOptions None] mounted"

text \<open>One committed ripple, and a touch whose ripple is still deferred.\<close>

definition rippleAndTouch :: engine where
  "rippleAndTouch =
     run [Start exampleHost (mouseDown 60 30) emptyOptions None,
          Start exampleHost (touchStart 20 40) emptyOptions None] mounted"

text \<open>A touch has started on the mounted component and its ripple is deferred.\<close>

definition touching :: engine where
  "touching = run [Start exampleHost (touchStart 60 30) emptyOptions (Some 1)] mounted"

text \<open>A \<open>stop\<close> has stored callback 4 on the mounted component; nothing has changed.\<close>

definition waiting :: engine where
  "waiting = run [Stop (mouseUp 60 30) (Some 4)] mounted"

text \<open>A press and its release in one turn: the collection is empty again, not yet rendered.\<close>

definition pressed :: engine where
  "pressed = run [Start exampleHost (mouseDown 60 30) emptyOptions (Some 1),
                  Stop (mouseUp 60 30) (Some 2)] mounted"

section \<open>Properties\<close>

subsection \<open>Numbers\<close>

lemmas js_defs = js_sub_def js_add_def js_mul_def math_max_def math_abs_def js_square_def
  math_sqrt_def

lemma js_rem_2_iff: "js_rem x 2 = 0 \<longleftrightarrow> evenInteger x"
proof
  assume r: "js_rem x 2 = 0"
  define k :: int where "k = (if 0 \<le> x / 2 then \<lfloor>x / 2\<rfloor> else \<lceil>x / 2\<rceil>)"
  from r have x: "x = of_int (2 * k)"
    by (simp add: js_rem_def k_def)
  then have "\<lfloor>x\<rfloor> = 2 * k"
    by (metis floor_of_int)
  with x show "evenInteger x"
    by (simp add: evenInteger_def)
next
  assume "evenInteger x"
  then obtain m where m: "\<lfloor>x\<rfloor> = 2 * m" and x: "x = of_int \<lfloor>x\<rfloor>"
    by (auto simp: evenInteger_def elim: evenE)
  from x m have x2: "x = 2 * of_int m"
    by simp
  then have "x / 2 = of_int m"
    by simp
  then show "js_rem x 2 = 0"
    by (simp add: js_rem_def x2)
qed

lemma rippleSpan_Num: "rippleSpan c (Num r) = Num (sizeOf c r)"
  by (simp add: rippleSpan_def js_defs sizeOf_def mult.commute)

subsection \<open>Unfolding\<close>

lemmas example_defs = exampleElement_def exampleHost_def bareHost_def mouseDown_def mouseUp_def
  touchStart_def touchEnd_def pulsateOptions_def centerOptions_def emptyEvent_def
  emptyOptions_def mounted_def

lemmas engine_defs = start_def stop_def pulsate_def rippleParams_def centerOf_def elementOf_def
  rectOf_def noClientPoint_def setStartTimer_def clearTimeout_def render_def ripplesEffect_def
  runTask_def fireTimer_def rippleSpan_def math_round_def DURATION_def DELAY_RIPPLE_def
  forceFire_def suppressed_def timers_ok_def Let_def

lemma clearTimeout_fields [simp]:
  "ripples (clearTimeout h s) = ripples s"
  "ripplesChanged (clearTimeout h s) = ripplesChanged s"
  "nextKey (clearTimeout h s) = nextKey s"
  "rippleCallback (clearTimeout h s) = rippleCallback s"
  "ignoringMouseDown (clearTimeout h s) = ignoringMouseDown s"
  "startTimer (clearTimeout h s) = startTimer s"
  "startTimerCommit (clearTimeout h s) = startTimerCommit s"
  "nextTimer (clearTimeout h s) = nextTimer s"
  "fired (clearTimeout h s) = fired s"
  by (simp_all add: clearTimeout_def)

lemma startCommit_fields [simp]:
  "ignoringMouseDown (startCommit p s) = ignoringMouseDown s"
  "startTimer (startCommit p s) = startTimer s"
  "startTimerCommit (startCommit p s) = startTimerCommit s"
  "timers (startCommit p s) = timers s"
  "nextTimer (startCommit p s) = nextTimer s"
  "fired (startCommit p s) = fired s"
  "ripplesChanged (startCommit p s)"
  "nextKey (startCommit p s) = nextKey s + 1"
  by (cases p; simp)+

lemma ripples_startCommit: "ripples (startCommit p s) = ripples s @ [instance_of (nextKey s) p]"
  by (cases p) simp

subsection \<open>The two branches of \<open>stop\<close>\<close>

lemma stop_plain:
  assumes "\<not> forceFire event s"
  shows "stop event cb s =
    (clearTimeout (startTimer s) s)\<lparr>startTimerCommit := None,
       ripples := drop 1 (ripples s),
       ripplesChanged := ripplesChanged s \<or> ripples s \<noteq> [],
       rippleCallback := cb\<rparr>"
  using assms
  by (auto simp: stop_def forceFire_def Let_def clearTimeout_def split: option.splits)

lemma stop_forceFire:
  assumes "etype event = Some ''touchend''" and "startTimerCommit s = Some p"
  shows "stop event cb s =
    setStartTimer (StopTask event cb) 0
      ((startCommit p (clearTimeout (startTimer s) s))\<lparr>startTimerCommit := None\<rparr>)"
  using assms by (simp add: stop_def Let_def)

subsection \<open>Firing the timer that was armed last\<close>

lemma find_fresh:
  "list_all (\<lambda>(i, d, t). i < (n::nat)) ts \<Longrightarrow>
     find (\<lambda>(i, d, t). i = n) (ts @ [(n, d', t')]) = Some (n, d', t')"
  by (induction ts) (auto simp: case_prod_beta)

lemma filter_fresh:
  "list_all (\<lambda>(i, d, t). i < (n::nat)) ts \<Longrightarrow> filter (\<lambda>(i, d, t). i \<noteq> n) ts = ts"
  by (induction ts) (auto simp: case_prod_beta)

lemma list_all_filter: "list_all P ts \<Longrightarrow> list_all P (filter Q ts)"
  by (induction ts) auto

lemma fireTimer_fresh:
  assumes "list_all (\<lambda>(i, d, t). i < n) ts"
    and "timers s = ts @ [(n, d, t)]"
  shows "fireTimer n s = runTask t (s\<lparr>timers := ts\<rparr>)"
  using assms by (simp add: fireTimer_def find_fresh filter_fresh)

lemma forceFire_then_stop:
  assumes ok: "timers_ok s"
    and ev: "etype event = Some ''touchend''" and p: "startTimerCommit s = Some p"
  shows "ripples (fireTimer (nextTimer s) (stop event cb s))
           = drop 1 (ripples s @ [instance_of (nextKey s) p])"
proof -
  let ?ts = "filter (\<lambda>(i, d, t). Some i \<noteq> startTimer s) (timers s)"
  let ?s' = "stop event cb s"
  have all: "list_all (\<lambda>(i, d, t). i < nextTimer s) ?ts"
    using ok by (simp add: timers_ok_def list_all_filter)
  have ts: "timers ?s' = ?ts @ [(nextTimer s, 0, StopTask event cb)]"
    by (cases p) (simp add: stop_forceFire [OF ev p] setStartTimer_def clearTimeout_def)
  have nf: "\<not> forceFire event (?s'\<lparr>timers := ?ts\<rparr>)"
    by (cases p) (simp add: stop_forceFire [OF ev p] setStartTimer_def forceFire_def)
  have "fireTimer (nextTimer s) ?s' = stop event cb (?s'\<lparr>timers := ?ts\<rparr>)"
    using fireTimer_fresh [OF all ts] by (simp add: runTask_def)
  then show ?thesis
    by (cases p)
      (simp add: stop_plain [OF nf], simp add: stop_forceFire [OF ev p] setStartTimer_def
        clearTimeout_def)
qed

subsection \<open>Removal by \<open>stop\<close>\<close>

text \<open>
  Claim C1. A call of \<open>stop\<close> on a non-empty collection that does not take the branch of
  the early commit removes the instance at index 0 and nothing else: the collection before
  the call is that instance followed by the collection after it, in the same order. When
  the call does take that branch, it appends the deferred instance, and the repeated
  \<open>stop\<close> of the timer it arms then removes the instance at index 0 of that collection.
\<close>

theorem stop_removes_index_0:
  assumes "ripples s \<noteq> []"
  shows "(\<not> forceFire event s \<longrightarrow>
            ripples s = ripples s ! 0 # ripples (stop event cb s))
       \<and> (forceFire event s \<and> timers_ok s \<longrightarrow>
            (\<exists>r. ripples (stop event cb s) = ripples s @ [r]
               \<and> ripples s @ [r]
                   = ripples s ! 0 # ripples (fireTimer (nextTimer s) (stop event cb s))))"
proof (intro conjI impI)
  assume "\<not> forceFire event s"
  with assms show "ripples s = ripples s ! 0 # ripples (stop event cb s)"
    by (cases "ripples s") (simp_all add: stop_plain)
next
  assume a: "forceFire event s \<and> timers_ok s"
  then obtain p where ev: "etype event = Some ''touchend''" and p: "startTimerCommit s = Some p"
    by (auto simp: forceFire_def)
  have 1: "ripples (stop event cb s) = ripples s @ [instance_of (nextKey s) p]"
    by (simp add: stop_forceFire [OF ev p] setStartTimer_def ripples_startCommit clearTimeout_def)
  have 2: "ripples (fireTimer (nextTimer s) (stop event cb s))
           = drop 1 (ripples s @ [instance_of (nextKey s) p])"
    using a forceFire_then_stop [OF _ ev p] by simp
  from assms 1 2 show "\<exists>r. ripples (stop event cb s) = ripples s @ [r]
      \<and> ripples s @ [r] = ripples s ! 0 # ripples (fireTimer (nextTimer s) (stop event cb s))"
    by (cases "ripples s") simp_all
qed

theorem stop_removes_index_0_witness:
  "ripples twoRipples \<noteq> [] \<and> \<not> forceFire (mouseUp 60 30) twoRipples
   \<and> map key (ripples twoRipples) = [0, 1]
   \<and> map key (ripples (stop (mouseUp 60 30) None twoRipples)) = [1]
   \<and> ripples twoRipples = ripples twoRipples ! 0 # ripples (stop (mouseUp 60 30) None twoRipples)
   \<and> ripples rippleAndTouch \<noteq> [] \<and> forceFire touchEnd rippleAndTouch \<and> timers_ok rippleAndTouch
   \<and> map key (ripples rippleAndTouch) = [0]
   \<and> map key (ripples (stop touchEnd None rippleAndTouch)) = [0, 1]
   \<and> map key (ripples (fireTimer (nextTimer rippleAndTouch) (stop touchEnd None rippleAndTouch))) = [1]"
  using stop_removes_index_0 [of twoRipples "mouseUp 60 30" None]
    stop_removes_index_0 [of rippleAndTouch touchEnd None]
  by (simp add: twoRipples_def rippleAndTouch_def engine_defs example_defs js_defs)

subsection \<open>Mouse events after a touch\<close>

text \<open>
  Claim C2. A \<open>start\<close> with a \<open>mousedown\<close> event while \<open>ignoringMouseDown\<close> is set clears the
  flag and returns, with every other part of the state as it was and no ripple created. A
  \<open>start\<close> with a \<open>touchstart\<close> event leaves the flag set, however the call ends.
\<close>

theorem start_mouse_after_touch:
  "(etype event = Some ''mousedown'' \<and> ignoringMouseDown s \<longrightarrow>
      start h event opts cb s = Inr (s\<lparr>ignoringMouseDown := False\<rparr>))
   \<and> (etype event = Some ''touchstart'' \<longrightarrow>
      ignoringMouseDown (state_of (start h event opts cb s)))"
proof (intro conjI impI)
  assume "etype event = Some ''mousedown'' \<and> ignoringMouseDown s"
  then show "start h event opts cb s = Inr (s\<lparr>ignoringMouseDown := False\<rparr>)"
    by (simp add: start_def)
next
  assume "etype event = Some ''touchstart''"
  then show "ignoringMouseDown (state_of (start h event opts cb s))"
    by (cases "rippleParams h event opts cb")
      (simp_all add: start_def setStartTimer_def Let_def)
qed

theorem start_mouse_after_touch_witness:
  "etype (mouseDown 20 40) = Some ''mousedown'' \<and> ignoringMouseDown rippleAndTouch
   \<and> start exampleHost (mouseDown 20 40) emptyOptions (Some 3) rippleAndTouch
       = Inr (rippleAndTouch\<lparr>ignoringMouseDown := False\<rparr>)
   \<and> etype (touchStart 20 40) = Some ''touchstart'' \<and> \<not> ignoringMouseDown twoRipples
   \<and> ignoringMouseDown
       (state_of (start exampleHost (touchStart 20 40) emptyOptions None twoRipples))"
  using start_mouse_after_touch [of "mouseDown 20 40" rippleAndTouch exampleHost emptyOptions "Some 3"]
    start_mouse_after_touch [of "touchStart 20 40" twoRipples exampleHost emptyOptions None]
  by (simp add: twoRipples_def rippleAndTouch_def engine_defs example_defs js_defs)

subsection \<open>Geometry\<close>

lemma sqrt_strictly_between:
  assumes "0 \<le> a" and "a ^ 2 < x" and "x < (a + 1) ^ 2"
  shows "a < sqrt x \<and> sqrt x < a + 1"
proof
  show "a < sqrt x"
    using assms by (simp add: real_less_rsqrt)
  show "sqrt x < a + 1"
    using assms by (intro real_less_lsqrt) auto
qed

lemma not_evenInteger_sqrt:
  assumes "0 \<le> n" and "(of_int n) ^ 2 < x" and "x < (of_int n + 1) ^ 2"
  shows "\<not> evenInteger (sqrt x)"
proof
  assume e: "evenInteger (sqrt x)"
  have b: "of_int n < sqrt x \<and> sqrt x < of_int n + 1"
    using assms by (intro sqrt_strictly_between) auto
  then have "\<lfloor>sqrt x\<rfloor> = n"
    by (intro floor_unique) auto
  with e have "sqrt x = of_int n"
    by (simp add: evenInteger_def)
  with b show False
    by simp
qed

lemma centeredSize_100_50: "centeredSize 100 50 = sqrt 7500"
proof -
  have "\<not> evenInteger (sqrt 7500)"
    using not_evenInteger_sqrt [of 86 7500] by simp
  then show ?thesis
    by (simp add: centeredSize_def)
qed

lemma rippleParams_center:
  assumes "centerOf h opts"
  shows "rippleParams h event opts cb =
    Inr (Params (pulsate_opt opts = Some True)
      (Num (math_round (rect_width (boxOf h opts) / 2)))
      (Num (math_round (rect_height (boxOf h opts) / 2)))
      (Num (centeredSize (rect_width (boxOf h opts)) (rect_height (boxOf h opts))))
      cb)"
  using assms
  by (simp add: rippleParams_def Let_def centeredSize_def js_rem_2_iff boxOf_def
      split: option.splits)

lemma rippleParams_noClientPoint:
  assumes "\<not> centerOf h opts" and "noClientPoint event"
  shows "rippleParams h event opts cb =
    Inr (Params (pulsate_opt opts = Some True)
      (Num (math_round (rect_width (boxOf h opts) / 2)))
      (Num (math_round (rect_height (boxOf h opts) / 2)))
      (Num (cornerSize (clientWidthOf (elementOf h opts)) (clientHeightOf (elementOf h opts))
         (math_round (rect_width (boxOf h opts) / 2))
         (math_round (rect_height (boxOf h opts) / 2))))
      cb)"
  using assms
  by (simp add: rippleParams_def Let_def cornerSize_def rippleSpan_Num js_defs boxOf_def
      clientWidthOf_def clientHeightOf_def split: option.splits)

lemma rippleParams_point:
  assumes "\<not> centerOf h opts" and "\<not> noClientPoint event"
    and "(touches event = None \<and> clientX event = Some x \<and> clientY event = Some y)
         \<or> (\<exists>ts. touches event = Some ((x, y) # ts))"
  shows "rippleParams h event opts cb =
    Inr (Params (pulsate_opt opts = Some True)
      (Num (math_round (x - rect_left (boxOf h opts))))
      (Num (math_round (y - rect_top (boxOf h opts))))
      (Num (cornerSize (clientWidthOf (elementOf h opts)) (clientHeightOf (elementOf h opts))
         (math_round (x - rect_left (boxOf h opts)))
         (math_round (y - rect_top (boxOf h opts)))))
      cb)"
  using assms
  by (auto simp: rippleParams_def Let_def cornerSize_def rippleSpan_Num js_defs boxOf_def
      clientWidthOf_def clientHeightOf_def split: option.splits)

lemma start_commits:
  assumes "\<not> suppressed event s" and "touches event = None"
    and "rippleParams h event opts cb = Inr p"
  shows "start h event opts cb s = Inr (startCommit p (afterFlag event s))"
  using assms by (auto simp: start_def suppressed_def afterFlag_def Let_def)

lemma start_defers:
  assumes "\<not> suppressed event s" and "touches event \<noteq> None" and "startTimerCommit s = None"
    and "rippleParams h event opts cb = Inr p"
  shows "start h event opts cb s =
    Inr (setStartTimer CommitTask DELAY_RIPPLE ((afterFlag event s)\<lparr>startTimerCommit := Some p\<rparr>))"
  using assms by (auto simp: start_def suppressed_def afterFlag_def Let_def)

lemma afterFlag_fields [simp]:
  "ripples (afterFlag event s) = ripples s"
  "ripplesChanged (afterFlag event s) = ripplesChanged s"
  "nextKey (afterFlag event s) = nextKey s"
  "rippleCallback (afterFlag event s) = rippleCallback s"
  "startTimer (afterFlag event s) = startTimer s"
  "startTimerCommit (afterFlag event s) = startTimerCommit s"
  "timers (afterFlag event s) = timers s"
  "nextTimer (afterFlag event s) = nextTimer s"
  "fired (afterFlag event s) = fired s"
  by (simp_all add: afterFlag_def)

lemma start_hands_over:
  assumes "\<not> suppressed event s" and "rippleParams h event opts cb = Inr p"
  shows "(touches event = None \<longrightarrow>
            ripples (state_of (start h event opts cb s)) = ripples s @ [instance_of (nextKey s) p])
       \<and> (touches event \<noteq> None \<and> startTimerCommit s = None \<longrightarrow>
            startTimerCommit (state_of (start h event opts cb s)) = Some p)"
  using assms
  by (auto simp: start_commits start_defers ripples_startCommit setStartTimer_def)

text \<open>
  Claim C3, as amended. When the option \<open>center\<close> is true (given, or by its default), the
  ripple is placed at \<open>(round(width/2), round(height/2))\<close> of the measured box and its
  diameter is \<open>sqrt((2*width\<^sup>2 + height\<^sup>2)/3)\<close>, plus 1 exactly when that number is an even
  integer. When the option is false and the ripple is centred only because the event has no
  client point, the place is the same and the diameter is \<open>sqrt(sizeX\<^sup>2 + sizeY\<^sup>2)\<close>,
  computed from that place. These are the parameters \<open>start\<close> commits, or stores for a
  touch.
\<close>

theorem centered_geometry:
  fixes h :: host and opts :: options and event :: event and cb :: "callback option"
    and s :: engine
  defines "x \<equiv> math_round (rect_width (boxOf h opts) / 2)"
    and "y \<equiv> math_round (rect_height (boxOf h opts) / 2)"
  defines "P \<equiv> Params (pulsate_opt opts = Some True) (Num x) (Num y)
        (Num (centeredSize (rect_width (boxOf h opts)) (rect_height (boxOf h opts)))) cb"
    and "Q \<equiv> Params (pulsate_opt opts = Some True) (Num x) (Num y)
        (Num (cornerSize (clientWidthOf (elementOf h opts)) (clientHeightOf (elementOf h opts))
           x y)) cb"
  shows "(centerOf h opts \<longrightarrow>
            rippleParams h event opts cb = Inr P
          \<and> (\<not> suppressed event s \<and> touches event = None \<longrightarrow>
               ripples (state_of (start h event opts cb s))
                 = ripples s @ [instance_of (nextKey s) P])
          \<and> (\<not> suppressed event s \<and> touches event \<noteq> None \<and> startTimerCommit s = None \<longrightarrow>
               startTimerCommit (state_of (start h event opts cb s)) = Some P))
       \<and> (\<not> centerOf h opts \<and> noClientPoint event \<longrightarrow>
            rippleParams h event opts cb = Inr Q
          \<and> (\<not> suppressed event s \<and> touches event = None \<longrightarrow>
               ripples (state_of (start h event opts cb s))
                 = ripples s @ [instance_of (nextKey s) Q])
          \<and> (\<not> suppressed event s \<and> touches event \<noteq> None \<and> startTimerCommit s = None \<longrightarrow>
               startTimerCommit (state_of (start h event opts cb s)) = Some Q))"
proof (intro conjI impI)
  assume c: "centerOf h opts"
  show p: "rippleParams h event opts cb = Inr P"
    unfolding P_def x_def y_def by (rule rippleParams_center [OF c])
  { assume a: "\<not> suppressed event s \<and> touches event = None"
    then show "ripples (state_of (start h event opts cb s))
                 = ripples s @ [instance_of (nextKey s) P]"
      using start_hands_over [of event s h opts cb P] p by simp }
  { assume a: "\<not> suppressed event s \<and> touches event \<noteq> None \<and> startTimerCommit s = None"
    then show "startTimerCommit (state_of (start h event opts cb s)) = Some P"
      using start_hands_over [of event s h opts cb P] p by simp }
next
  assume c: "\<not> centerOf h opts \<and> noClientPoint event"
  show q: "rippleParams h event opts cb = Inr Q"
    unfolding Q_def x_def y_def using c by (intro rippleParams_noClientPoint) auto
  { assume a: "\<not> suppressed event s \<and> touches event = None"
    then show "ripples (state_of (start h event opts cb s))
                 = ripples s @ [instance_of (nextKey s) Q]"
      using start_hands_over [of event s h opts cb Q] q by simp }
  { assume a: "\<not> suppressed event s \<and> touches event \<noteq> None \<and> startTimerCommit s = None"
    then show "startTimerCommit (state_of (start h event opts cb s)) = Some Q"
      using start_hands_over [of event s h opts cb Q] q by simp }
qed


theorem centered_geometry_witness:
  "centerOf exampleHost centerOptions
   \<and> rippleParams exampleHost (mouseDown 60 30) centerOptions None
       = Inr (Params False (Num 50) (Num 25) (Num (sqrt 7500)) None)
   \<and> \<not> evenInteger (sqrt 7500)
   \<and> \<not> suppressed (mouseDown 60 30) mounted \<and> touches (mouseDown 60 30) = None
   \<and> ripples (state_of (start exampleHost (mouseDown 60 30) centerOptions None mounted))
       = [\<lparr>key = 0, timeout = 550, pulsate_prop = False, rippleX = Num 50, rippleY = Num 25,
           rippleSize = Num (sqrt 7500)\<rparr>]
   \<and> touches (touchStart 60 30) \<noteq> None \<and> startTimerCommit mounted = None
   \<and> startTimerCommit (state_of (start exampleHost (touchStart 60 30) centerOptions None mounted))
       = Some (Params False (Num 50) (Num 25) (Num (sqrt 7500)) None)
   \<and> \<not> centerOf exampleHost emptyOptions \<and> noClientPoint emptyEvent
   \<and> rippleParams exampleHost emptyEvent emptyOptions None
       = Inr (Params False (Num 50) (Num 25) (Num (sqrt 13108)) None)"
proof -
  have e: "\<not> evenInteger (sqrt 7500)"
    using not_evenInteger_sqrt [of 86 7500] by simp
  have c: "centeredSize 100 50 = sqrt 7500"
    by (rule centeredSize_100_50)
  have b: "boxOf exampleHost centerOptions = getBoundingClientRect exampleElement"
    "boxOf exampleHost emptyOptions = getBoundingClientRect exampleElement"
    "elementOf exampleHost emptyOptions = Some exampleElement"
    by (simp_all add: boxOf_def elementOf_def rectOf_def example_defs)
  have m: "math_round 50 = 50" "math_round 25 = 25"
    by (simp_all add: math_round_def)
  have k: "cornerSize 100 50 50 25 = sqrt 13108"
    by (simp add: cornerSize_def sizeOf_def)
  have 1: "centerOf exampleHost centerOptions" "\<not> centerOf exampleHost emptyOptions"
    "noClientPoint emptyEvent"
    by (simp_all add: centerOf_def noClientPoint_def example_defs)
  have 2: "\<not> suppressed (mouseDown 60 30) mounted" "touches (mouseDown 60 30) = None"
    "\<not> suppressed (touchStart 60 30) mounted" "touches (touchStart 60 30) \<noteq> None"
    "startTimerCommit mounted = None" "ripples mounted = []" "nextKey mounted = 0"
    by (simp_all add: suppressed_def example_defs)
  have o: "pulsate_opt centerOptions = None" "pulsate_opt emptyOptions = None"
    by (simp_all add: example_defs)
  have g: "getBoundingClientRect exampleElement
      = \<lparr>rect_width = 100, rect_height = 50, rect_left = 10, rect_top = 10\<rparr>"
    "clientWidth exampleElement = 100" "clientHeight exampleElement = 50"
    by (simp_all add: exampleElement_def)
  show ?thesis
    using centered_geometry [of exampleHost centerOptions "mouseDown 60 30" None mounted]
      centered_geometry [of exampleHost centerOptions "touchStart 60 30" None mounted]
      centered_geometry [of exampleHost emptyOptions emptyEvent None mounted]
    by (simp add: e c b m k 1 2 g o clientWidthOf_def clientHeightOf_def DURATION_def)
qed

text \<open>
  Claim C3 as stated fails for a \<open>start\<close> that is centred for want of a client point: with
  the empty event and no \<open>center\<close> option on the box of 100 by 50, the ripple sits at
  \<open>(50, 25)\<close> and its diameter is \<open>sqrt(102\<^sup>2 + 52\<^sup>2)\<close>, not \<open>sqrt(7500)\<close>.
\<close>

theorem centered_path_diameter_counterexample:
  "\<not> centerOf exampleHost emptyOptions \<and> noClientPoint emptyEvent
   \<and> ripples (state_of (start exampleHost emptyEvent emptyOptions None mounted))
       = [\<lparr>key = 0, timeout = 550, pulsate_prop = False, rippleX = Num 50, rippleY = Num 25,
           rippleSize = Num (sqrt 13108)\<rparr>]
   \<and> centeredSize 100 50 = sqrt 7500
   \<and> sqrt 13108 \<noteq> centeredSize 100 50"
proof -
  have "ripples (state_of (start exampleHost emptyEvent emptyOptions None mounted))
       = [\<lparr>key = 0, timeout = 550, pulsate_prop = False, rippleX = Num 50, rippleY = Num 25,
           rippleSize = Num (sqrt 13108)\<rparr>]"
    by (simp add: engine_defs example_defs js_defs)
  moreover have "\<not> centerOf exampleHost emptyOptions \<and> noClientPoint emptyEvent"
    by (simp add: centerOf_def noClientPoint_def example_defs)
  ultimately show ?thesis
    by (simp add: centeredSize_100_50)
qed

text \<open>
  \<open>Math.round\<close> as modelled is rounding to the nearest integer, with a tie going up.
\<close>

lemma math_round_nearest: "math_round x = of_int (round x)"
  by (simp add: math_round_def round_def)

text \<open>
  Claim C4. When the option \<open>center\<close> is false and the event has a client point \<open>(x, y)\<close>,
  its own or that of its first touch, the ripple is placed at the point minus the left and
  top of the measured box, each rounded to the nearest integer: the two coordinates are
  integers at most one half away from the exact offsets. The diameter is
  \<open>sqrt(sizeX\<^sup>2 + sizeY\<^sup>2)\<close> with \<open>sizeX = 2*max(|clientWidth - rippleX|, rippleX) + 2\<close> and
  \<open>sizeY\<close> likewise. These are the parameters \<open>start\<close> commits, or stores for a touch.
  The witness has the example of the specification, where the point \<open>(60, 30)\<close> gives the
  place \<open>(50, 20)\<close>, \<open>sizeX = 102\<close> and \<open>sizeY = 62\<close>, and two points off the grid:
  \<open>(60.4, 30.5)\<close> gives \<open>(50, 21)\<close> and \<open>(59.6, 30.4)\<close> gives \<open>(50, 20)\<close>.
\<close>

theorem pointed_geometry:
  fixes h :: host and opts :: options and event :: event and cb :: "callback option"
    and s :: engine and x y :: real
  defines "rx \<equiv> of_int (round (x - rect_left (boxOf h opts)))"
    and "ry \<equiv> of_int (round (y - rect_top (boxOf h opts)))"
  defines "P \<equiv> Params (pulsate_opt opts = Some True) (Num rx) (Num ry)
        (Num (sqrt ((sizeOf (clientWidthOf (elementOf h opts)) rx) ^ 2
                  + (sizeOf (clientHeightOf (elementOf h opts)) ry) ^ 2))) cb"
  assumes "\<not> centerOf h opts" and "\<not> noClientPoint event"
    and "(touches event = None \<and> clientX event = Some x \<and> clientY event = Some y)
         \<or> (\<exists>ts. touches event = Some ((x, y) # ts))"
  shows "rippleParams h event opts cb = Inr P
       \<and> \<bar>rx - (x - rect_left (boxOf h opts))\<bar> \<le> 1 / 2
       \<and> \<bar>ry - (y - rect_top (boxOf h opts))\<bar> \<le> 1 / 2
       \<and> (\<not> suppressed event s \<and> touches event = None \<longrightarrow>
            ripples (state_of (start h event opts cb s))
              = ripples s @ [instance_of (nextKey s) P])
       \<and> (\<not> suppressed event s \<and> touches event \<noteq> None \<and> startTimerCommit s = None \<longrightarrow>
            startTimerCommit (state_of (start h event opts cb s)) = Some P)"
proof -
  have p: "rippleParams h event opts cb = Inr P"
    unfolding P_def rx_def ry_def
    using rippleParams_point [OF assms(4-6), of cb]
    by (simp add: cornerSize_def math_round_nearest)
  have n: "\<bar>rx - (x - rect_left (boxOf h opts))\<bar> \<le> 1 / 2"
    "\<bar>ry - (y - rect_top (boxOf h opts))\<bar> \<le> 1 / 2"
    unfolding rx_def ry_def by (rule of_int_round_abs_le)+
  from p n show ?thesis
    using start_hands_over [of event s h opts cb P] by simp
qed

theorem pointed_geometry_witness:
  "\<not> centerOf exampleHost emptyOptions \<and> \<not> noClientPoint (mouseDown 60 30)
   \<and> \<not> noClientPoint (touchStart 60 30)
   \<and> sizeOf 100 50 = 102 \<and> sizeOf 50 20 = 62
   \<and> rippleParams exampleHost (mouseDown 60 30) emptyOptions None
       = Inr (Params False (Num 50) (Num 20) (Num (sqrt (102 ^ 2 + 62 ^ 2))) None)
   \<and> ripples (state_of (start exampleHost (mouseDown 60 30) emptyOptions None mounted))
       = [\<lparr>key = 0, timeout = 550, pulsate_prop = False, rippleX = Num 50, rippleY = Num 20,
           rippleSize = Num (sqrt (102 ^ 2 + 62 ^ 2))\<rparr>]
   \<and> startTimerCommit (state_of (start exampleHost (touchStart 60 30) emptyOptions None mounted))
       = Some (Params False (Num 50) (Num 20) (Num (sqrt (102 ^ 2 + 62 ^ 2))) None)
   \<and> \<not> noClientPoint (mouseDown (302 / 5) (61 / 2))
   \<and> sizeOf 50 21 = 60
   \<and> rippleParams exampleHost (mouseDown (302 / 5) (61 / 2)) emptyOptions None
       = Inr (Params False (Num 50) (Num 21) (Num (sqrt (102 ^ 2 + 60 ^ 2))) None)
   \<and> \<not> noClientPoint (mouseDown (298 / 5) (152 / 5))
   \<and> rippleParams exampleHost (mouseDown (298 / 5) (152 / 5)) emptyOptions None
       = Inr (Params False (Num 50) (Num 20) (Num (sqrt (102 ^ 2 + 62 ^ 2))) None)"
proof -
  have b: "boxOf exampleHost emptyOptions = getBoundingClientRect exampleElement"
    "elementOf exampleHost emptyOptions = Some exampleElement"
    by (simp_all add: boxOf_def elementOf_def rectOf_def example_defs)
  have r: "round (50 :: real) = 50" "round (20 :: real) = 20"
    "round (252 / 5 :: real) = 50" "round (41 / 2 :: real) = 21"
    "round (248 / 5 :: real) = 50" "round (102 / 5 :: real) = 20"
    by (simp_all add: round_def)
  have z: "sizeOf 100 50 = 102" "sizeOf 50 20 = 62" "sizeOf 50 21 = 60"
    by (simp_all add: sizeOf_def)
  have 1: "\<not> centerOf exampleHost emptyOptions" "\<not> noClientPoint (mouseDown 60 30)"
    "\<not> noClientPoint (touchStart 60 30)" "\<not> noClientPoint (mouseDown (302 / 5) (61 / 2))"
    "\<not> noClientPoint (mouseDown (298 / 5) (152 / 5))"
    by (simp_all add: centerOf_def noClientPoint_def example_defs)
  have 2: "\<not> suppressed (mouseDown 60 30) mounted" "touches (mouseDown a c) = None"
    "clientX (mouseDown a c) = Some a" "clientY (mouseDown a c) = Some c"
    "\<not> suppressed (touchStart 60 30) mounted" "touches (touchStart 60 30) = Some [(60, 30)]"
    "startTimerCommit mounted = None" "ripples mounted = []" "nextKey mounted = 0" for a c
    by (simp_all add: suppressed_def example_defs)
  have o: "pulsate_opt emptyOptions = None"
    by (simp add: example_defs)
  have g: "getBoundingClientRect exampleElement
      = \<lparr>rect_width = 100, rect_height = 50, rect_left = 10, rect_top = 10\<rparr>"
    "clientWidth exampleElement = 100" "clientHeight exampleElement = 50"
    by (simp_all add: exampleElement_def)
  show ?thesis
    using pointed_geometry [where h = exampleHost and opts = emptyOptions
        and event = "mouseDown 60 30" and x = 60 and y = 30 and cb = None and s = mounted]
      pointed_geometry [where h = exampleHost and opts = emptyOptions
        and event = "touchStart 60 30" and x = 60 and y = 30 and cb = None and s = mounted]
      pointed_geometry [where h = exampleHost and opts = emptyOptions
        and event = "mouseDown (302 / 5) (61 / 2)" and x = "302 / 5" and y = "61 / 2"
        and cb = None and s = mounted]
      pointed_geometry [where h = exampleHost and opts = emptyOptions
        and event = "mouseDown (298 / 5) (152 / 5)" and x = "298 / 5" and y = "152 / 5"
        and cb = None and s = mounted]
    by (simp add: b r z 1 2 g o clientWidthOf_def clientHeightOf_def DURATION_def)
qed

text \<open>
  Claim C10. With \<open>options.pulsate\<close> true and \<open>options.center\<close> absent the option
  \<open>center\<close> is true, so the ripple gets the centred place and diameter whatever client
  point the event carries.
\<close>

theorem pulsate_option_centers:
  fixes h :: host and opts :: options and event :: event and cb :: "callback option"
    and s :: engine
  defines "P \<equiv> Params True
        (Num (math_round (rect_width (boxOf h opts) / 2)))
        (Num (math_round (rect_height (boxOf h opts) / 2)))
        (Num (centeredSize (rect_width (boxOf h opts)) (rect_height (boxOf h opts)))) cb"
  assumes "pulsate_opt opts = Some True" and "center_opt opts = None"
  shows "centerOf h opts
       \<and> rippleParams h event opts cb = Inr P
       \<and> (\<not> suppressed event s \<and> touches event = None \<longrightarrow>
            ripples (state_of (start h event opts cb s))
              = ripples s @ [instance_of (nextKey s) P])
       \<and> (\<not> suppressed event s \<and> touches event \<noteq> None \<and> startTimerCommit s = None \<longrightarrow>
            startTimerCommit (state_of (start h event opts cb s)) = Some P)"
proof -
  have c: "centerOf h opts"
    using assms(2,3) by (simp add: centerOf_def)
  have p: "rippleParams h event opts cb = Inr P"
    unfolding P_def using rippleParams_center [OF c, of event cb] assms(2) by simp
  with c show ?thesis
    using start_hands_over [of event s h opts cb P] by simp
qed

theorem pulsate_option_centers_witness:
  "pulsate_opt pulsateOptions = Some True \<and> center_opt pulsateOptions = None
   \<and> clientX (mouseDown 60 30) = Some 60 \<and> clientY (mouseDown 60 30) = Some 30
   \<and> \<not> noClientPoint (mouseDown 60 30)
   \<and> centerOf exampleHost pulsateOptions
   \<and> rippleParams exampleHost (mouseDown 60 30) pulsateOptions None
       = Inr (Params True (Num 50) (Num 25) (Num (sqrt 7500)) None)
   \<and> ripples (state_of (start exampleHost (mouseDown 60 30) pulsateOptions None mounted))
       = [\<lparr>key = 0, timeout = 550, pulsate_prop = True, rippleX = Num 50, rippleY = Num 25,
           rippleSize = Num (sqrt 7500)\<rparr>]"
proof -
  have b: "boxOf exampleHost pulsateOptions = getBoundingClientRect exampleElement"
    by (simp add: boxOf_def elementOf_def rectOf_def example_defs)
  have m: "math_round 50 = 50" "math_round 25 = 25"
    by (simp_all add: math_round_def)
  have 1: "pulsate_opt pulsateOptions = Some True" "center_opt pulsateOptions = None"
    "\<not> noClientPoint (mouseDown 60 30)"
    by (simp_all add: noClientPoint_def example_defs)
  have 2: "\<not> suppressed (mouseDown 60 30) mounted" "touches (mouseDown 60 30) = None"
    "clientX (mouseDown 60 30) = Some 60" "clientY (mouseDown 60 30) = Some 30"
    "ripples mounted = []" "nextKey mounted = 0"
    by (simp_all add: suppressed_def example_defs)
  have g: "getBoundingClientRect exampleElement
      = \<lparr>rect_width = 100, rect_height = 50, rect_left = 10, rect_top = 10\<rparr>"
    by (simp add: exampleElement_def)
  show ?thesis
    using pulsate_option_centers [where opts = pulsateOptions and h = exampleHost
        and event = "mouseDown 60 30" and cb = None and s = mounted]
    by (simp add: b m 1 2 g centeredSize_100_50 DURATION_def)
qed

subsection \<open>Timers and the deferred commit\<close>

lemma timers_ok_mounted: "timers_ok mounted"
  by (simp add: timers_ok_def mounted_def)

lemma timers_ok_same:
  "timers s' = timers s \<Longrightarrow> nextTimer s' = nextTimer s \<Longrightarrow> timers_ok s' = timers_ok s"
  by (simp add: timers_ok_def)

lemma list_all_less_mono:
  "list_all (\<lambda>(i, d, t). i < (n::nat)) ts \<Longrightarrow> list_all (\<lambda>(i, d, t). i < Suc n) ts"
  by (induction ts) (auto simp: case_prod_beta)

lemma fresh_not_in_handles:
  "list_all (\<lambda>(i, d, t). i < (n::nat)) ts \<Longrightarrow> n \<notin> fst ` set ts"
  by (induction ts) (auto simp: case_prod_beta)

lemma timers_ok_setStartTimer: "timers_ok s \<Longrightarrow> timers_ok (setStartTimer t d s)"
  by (simp add: timers_ok_def setStartTimer_def list_all_less_mono fresh_not_in_handles)

lemma distinct_handles_filter:
  "distinct (map fst ts) \<Longrightarrow> distinct (map fst (filter Q ts))"
  by (induction ts) auto

lemma timers_ok_filter:
  "timers_ok s \<Longrightarrow> timers_ok (s\<lparr>timers := filter Q (timers s)\<rparr>)"
  by (simp add: timers_ok_def list_all_filter distinct_handles_filter)

lemma timers_ok_clearTimeout: "timers_ok s \<Longrightarrow> timers_ok (clearTimeout h s)"
  by (simp add: clearTimeout_def timers_ok_filter)

lemma deferral_ok_mounted: "deferral_ok mounted"
  by (simp add: deferral_ok_def timers_ok_mounted) (simp add: mounted_def)

lemma deferral_ok_same:
  assumes "timers s' = timers s" and "nextTimer s' = nextTimer s"
    and "startTimer s' = startTimer s" and "startTimerCommit s' = startTimerCommit s"
  shows "deferral_ok s' = deferral_ok s"
  using assms by (simp add: deferral_ok_def timers_ok_same [of s' s] cong: option.case_cong)

lemma deferral_ok_afterFlag: "deferral_ok (afterFlag event s) = deferral_ok s"
  by (rule deferral_ok_same) simp_all

lemma deferral_ok_startCommit: "deferral_ok (startCommit p s) = deferral_ok s"
  by (rule deferral_ok_same) simp_all

lemma start_cases:
  "start h event opts cb s = Inr (s\<lparr>ignoringMouseDown := False\<rparr>) \<and> suppressed event s
   \<or> (\<exists>e. start h event opts cb s = Inl (e, afterFlag event s))
   \<or> (\<exists>p. start h event opts cb s = Inr (startCommit p (afterFlag event s)))
   \<or> start h event opts cb s = Inr (afterFlag event s) \<and> startTimerCommit s \<noteq> None
   \<or> (\<exists>p. start h event opts cb s
           = Inr (setStartTimer CommitTask DELAY_RIPPLE
                    ((afterFlag event s)\<lparr>startTimerCommit := Some p\<rparr>))
          \<and> startTimerCommit s = None)"
  by (cases "rippleParams h event opts cb")
    (auto simp: start_def suppressed_def afterFlag_def Let_def)

lemma deferral_ok_arm:
  assumes "deferral_ok s" and "startTimerCommit s = None"
  shows "deferral_ok (setStartTimer CommitTask DELAY_RIPPLE (s\<lparr>startTimerCommit := Some p\<rparr>))"
proof -
  have "timers_ok (s\<lparr>startTimerCommit := Some p\<rparr>)"
    using assms(1) by (simp add: deferral_ok_def timers_ok_def)
  then have "timers_ok (setStartTimer CommitTask DELAY_RIPPLE (s\<lparr>startTimerCommit := Some p\<rparr>))"
    by (rule timers_ok_setStartTimer)
  moreover have "filter isCommit (timers s) = []"
    using assms by (simp add: deferral_ok_def)
  ultimately show ?thesis
    by (simp add: deferral_ok_def) (simp add: setStartTimer_def isCommit_def)
qed

lemma deferral_ok_start:
  assumes "deferral_ok s"
  shows "deferral_ok (state_of (start h event opts cb s))"
proof -
  have f: "deferral_ok (s\<lparr>ignoringMouseDown := False\<rparr>)"
    using assms deferral_ok_same [of "s\<lparr>ignoringMouseDown := False\<rparr>" s] by simp
  have a: "deferral_ok (afterFlag event s)"
    using assms by (simp add: deferral_ok_afterFlag)
  have r: "\<And>p. startTimerCommit s = None \<Longrightarrow>
      deferral_ok (setStartTimer CommitTask DELAY_RIPPLE
        ((afterFlag event s)\<lparr>startTimerCommit := Some p\<rparr>))"
    using a by (intro deferral_ok_arm) simp_all
  show ?thesis
    using start_cases [of h event opts cb s] f a r
    by (auto simp: deferral_ok_startCommit)
qed

lemma filter_isCommit_clear:
  assumes "filter isCommit ts = [(h, d, CommitTask)]"
  shows "filter isCommit (filter (\<lambda>(i, d, t). Some i \<noteq> Some h) ts) = []"
proof -
  have "filter isCommit (filter (\<lambda>(i, d, t). Some i \<noteq> Some h) ts)
      = filter (\<lambda>(i, d, t). Some i \<noteq> Some h) (filter isCommit ts)"
    by (simp add: conj_commute)
  then show ?thesis
    using assms by simp
qed

lemma deferral_clear:
  assumes "deferral_ok s"
  shows "timers_ok (clearTimeout (startTimer s) s)
       \<and> filter isCommit (timers (clearTimeout (startTimer s) s)) = []"
proof
  show "timers_ok (clearTimeout (startTimer s) s)"
    using assms by (simp add: deferral_ok_def timers_ok_clearTimeout)
  show "filter isCommit (timers (clearTimeout (startTimer s) s)) = []"
  proof (cases "startTimerCommit s")
    case None
    then have "filter isCommit (timers s) = []"
      using assms by (simp add: deferral_ok_def)
    then have "filter (\<lambda>(i, d, t). Some i \<noteq> startTimer s) (filter isCommit (timers s)) = []"
      by simp
    then show ?thesis
      by (simp add: clearTimeout_def conj_commute)
  next
    case (Some p)
    then obtain h where h: "startTimer s = Some h"
      and f: "filter isCommit (timers s) = [(h, DELAY_RIPPLE, CommitTask)]"
      using assms by (auto simp: deferral_ok_def split: option.splits)
    show ?thesis
      using filter_isCommit_clear [OF f] by (simp add: clearTimeout_def h)
  qed
qed

lemma deferral_ok_stop:
  assumes "deferral_ok s"
  shows "deferral_ok (stop event cb s)"
proof (cases "forceFire event s")
  case False
  then show ?thesis
    using deferral_clear [OF assms] by (simp add: stop_plain deferral_ok_def timers_ok_def)
next
  case True
  then obtain p where ev: "etype event = Some ''touchend''" and p: "startTimerCommit s = Some p"
    by (auto simp: forceFire_def)
  let ?s1 = "(startCommit p (clearTimeout (startTimer s) s))\<lparr>startTimerCommit := None\<rparr>"
  have "timers_ok ?s1"
    using deferral_clear [OF assms] by (simp add: timers_ok_def)
  then have "timers_ok (setStartTimer (StopTask event cb) 0 ?s1)"
    by (rule timers_ok_setStartTimer)
  moreover have "filter isCommit (timers ?s1) = []"
    using deferral_clear [OF assms] by simp
  ultimately show ?thesis
    by (simp add: stop_forceFire [OF ev p] deferral_ok_def)
      (simp add: setStartTimer_def isCommit_def)
qed

lemma deferral_ok_render: "deferral_ok (render s) = deferral_ok s"
  by (rule deferral_ok_same) (simp_all add: render_def ripplesEffect_def split: option.splits)

lemma find_handle:
  assumes "find (\<lambda>(i, d, t). i = h) ts = Some (i, d, t)"
  shows "i = h \<and> (h, d, t) \<in> set ts"
  using assms by (induction ts) (auto split: if_splits)

lemma distinct_handle_unique:
  assumes "distinct (map fst ts)" and "(h, d, t) \<in> set ts" and "(h, d', t') \<in> set ts"
  shows "d' = d \<and> t' = t"
  using assms by (induction ts) (force+)

lemma filter_isCommit_remove_stop:
  assumes dis: "distinct (map fst ts)" and mem: "(h, d, StopTask ev c) \<in> set ts"
  shows "filter isCommit (filter (\<lambda>(i, d, t). i \<noteq> h) ts) = filter isCommit ts"
proof -
  have "\<And>e. e \<in> set ts \<Longrightarrow> isCommit e \<Longrightarrow> fst e \<noteq> h"
  proof
    fix e assume e: "e \<in> set ts" "isCommit e" "fst e = h"
    obtain d' where "e = (h, d', CommitTask)"
      using e(2,3) by (cases e) (simp add: isCommit_def)
    with e(1) distinct_handle_unique [OF dis mem, of d' CommitTask] show False
      by simp
  qed
  then have "filter (\<lambda>e. isCommit e \<and> fst e \<noteq> h) ts = filter isCommit ts"
    by (intro filter_cong) auto
  then show ?thesis
    by (simp add: case_prod_beta conj_commute)
qed

lemma filter_isCommit_remove_commit:
  assumes f: "filter isCommit ts = [(h', d', CommitTask)]" and mem: "(h, d, CommitTask) \<in> set ts"
  shows "filter isCommit (filter (\<lambda>(i, d, t). i \<noteq> h) ts) = []"
proof -
  have "(h, d, CommitTask) \<in> set (filter isCommit ts)"
    using mem by (simp add: isCommit_def)
  with f have "h' = h"
    by simp
  have "filter isCommit (filter (\<lambda>(i, d, t). i \<noteq> h) ts)
      = filter (\<lambda>(i, d, t). i \<noteq> h) (filter isCommit ts)"
    by (simp add: conj_commute)
  with f \<open>h' = h\<close> show ?thesis
    by simp
qed

lemma deferral_ok_fireTimer:
  assumes ok: "deferral_ok s"
  shows "deferral_ok (fireTimer h s)"
proof (cases "find (\<lambda>(i, d, t). i = h) (timers s)")
  case None
  then show ?thesis
    using ok by (simp add: fireTimer_def)
next
  case (Some e)
  obtain i d t where e: "e = (i, d, t)"
    by (cases e) auto
  let ?s' = "s\<lparr>timers := filter (\<lambda>(i, d, t). i \<noteq> h) (timers s)\<rparr>"
  have mem: "(h, d, t) \<in> set (timers s)"
    using find_handle [of h "timers s" i d t] Some e by simp
  have tok: "timers_ok ?s'"
    using ok by (simp add: deferral_ok_def timers_ok_filter)
  have dis: "distinct (map fst (timers s))"
    using ok by (simp add: deferral_ok_def timers_ok_def)
  have fire: "fireTimer h s = runTask t ?s'"
    using Some e by (simp add: fireTimer_def)
  show ?thesis
  proof (cases t)
    case CommitTask
    have "filter isCommit (timers s) \<noteq> []"
      using mem CommitTask by (force simp: filter_empty_conv isCommit_def)
    then obtain p h' where p: "startTimerCommit s = Some p"
      and f: "filter isCommit (timers s) = [(h', DELAY_RIPPLE, CommitTask)]"
      using ok by (auto simp: deferral_ok_def split: option.splits)
    have "filter isCommit (timers ?s') = []"
      using filter_isCommit_remove_commit [OF f] mem CommitTask by simp
    moreover have "timers_ok ((startCommit p ?s')\<lparr>startTimerCommit := None\<rparr>)"
      using tok by (simp add: timers_ok_def)
    ultimately show ?thesis
      by (simp add: fire CommitTask runTask_def p deferral_ok_def)
  next
    case (StopTask ev c)
    have "filter isCommit (timers ?s') = filter isCommit (timers s)"
      using filter_isCommit_remove_stop [OF dis] mem StopTask by simp
    then have "deferral_ok ?s'"
      using ok tok by (simp add: deferral_ok_def cong: option.case_cong)
    then show ?thesis
      by (simp add: fire StopTask runTask_def deferral_ok_stop)
  qed
qed

lemma deferral_ok_step: "deferral_ok s \<Longrightarrow> deferral_ok (step a s)"
  by (cases a)
    (simp_all add: deferral_ok_start deferral_ok_stop deferral_ok_fireTimer deferral_ok_render
      pulsate_def)

lemma deferral_ok_run: "deferral_ok s \<Longrightarrow> deferral_ok (run as s)"
  by (induction as arbitrary: s) (simp_all add: deferral_ok_step)

lemma deferral_ok_reachable: "deferral_ok (run as mounted)"
  by (rule deferral_ok_run [OF deferral_ok_mounted])

lemma at_most_one_commit_timer:
  assumes "deferral_ok s"
  shows "length (filter isCommit (timers s)) \<le> 1"
  using assms by (auto simp: deferral_ok_def split: option.splits)

subsection \<open>Touch deferral\<close>

lemma start_touch_ripples:
  assumes "touches event \<noteq> None"
  shows "ripples (state_of (start h event opts cb s)) = ripples s"
  using assms
  by (cases "rippleParams h event opts cb")
    (auto simp: start_def Let_def setStartTimer_def)

lemma start_touch_pending:
  assumes "touches event \<noteq> None" and "startTimerCommit s \<noteq> None"
  shows "state_of (start h event opts cb s)
    = s\<lparr>ignoringMouseDown := ignoringMouseDown (state_of (start h event opts cb s))\<rparr>"
  using assms
  by (cases "rippleParams h event opts cb")
    (auto simp: start_def Let_def)

lemma fire_armed_commit:
  assumes ok: "timers_ok s"
  shows "fireTimer (nextTimer s) (setStartTimer CommitTask d (s\<lparr>startTimerCommit := Some p\<rparr>))
    = (startCommit p s)\<lparr>startTimerCommit := None, startTimer := Some (nextTimer s),
         nextTimer := nextTimer s + 1\<rparr>"
proof -
  let ?s' = "setStartTimer CommitTask d (s\<lparr>startTimerCommit := Some p\<rparr>)"
  have all: "list_all (\<lambda>(i, d, t). i < nextTimer s) (timers s)"
    using ok by (simp add: timers_ok_def)
  have ts: "timers ?s' = timers s @ [(nextTimer s, d, CommitTask)]"
    by (simp add: setStartTimer_def)
  have "fireTimer (nextTimer s) ?s' = runTask CommitTask (?s'\<lparr>timers := timers s\<rparr>)"
    by (rule fireTimer_fresh [OF all ts])
  then show ?thesis
    by (cases p) (simp add: runTask_def setStartTimer_def)
qed

lemma rippleParams_total:
  assumes "touches event \<noteq> Some []"
  shows "\<exists>p. rippleParams h event opts cb = Inr p"
  using assms
  by (auto simp: rippleParams_def Let_def split: option.splits list.splits)

lemma touchstart_sets_flag:
  assumes "etype event = Some ''touchstart''"
  shows "ignoringMouseDown (state_of (start h event opts cb s))"
  using assms start_cases [of h event opts cb s]
  by (auto simp: suppressed_def afterFlag_def setStartTimer_def)

lemma touchstart_leaves_pending:
  assumes "etype event = Some ''touchstart''" and "touches event \<noteq> None"
    and "touches event \<noteq> Some []"
  shows "startTimerCommit (state_of (start h event opts cb s)) \<noteq> None"
proof -
  obtain p where p: "rippleParams h event opts cb = Inr p"
    using rippleParams_total [OF assms(3)] by blast
  have n: "\<not> suppressed event s"
    using assms(1) by (simp add: suppressed_def)
  show ?thesis
  proof (cases "startTimerCommit s")
    case None
    then show ?thesis
      using start_defers [OF n assms(2) None p] by (simp add: setStartTimer_def)
  next
    case (Some q)
    then have "startTimerCommit s \<noteq> None"
      by simp
    from arg_cong [OF start_touch_pending [OF assms(2) this, of h opts cb], of startTimerCommit]
    show ?thesis
      using Some by simp
  qed
qed

lemma second_touchstart:
  assumes "etype event = Some ''touchstart''" and "touches event \<noteq> None"
    and "touches event \<noteq> Some []"
    and "etype event' = Some ''touchstart''" and "touches event' \<noteq> None"
  shows "state_of (start h' event' opts' cb' (state_of (start h event opts cb s)))
    = state_of (start h event opts cb s)"
proof -
  let ?s1 = "state_of (start h event opts cb s)"
  let ?s2 = "state_of (start h' event' opts' cb' ?s1)"
  have "?s2 = ?s1\<lparr>ignoringMouseDown := ignoringMouseDown ?s2\<rparr>"
    by (rule start_touch_pending [OF assms(5) touchstart_leaves_pending [OF assms(1-3)]])
  moreover have "ignoringMouseDown ?s2" "ignoringMouseDown ?s1"
    using assms(1,4) by (simp_all add: touchstart_sets_flag)
  ultimately have "?s2 = ?s1\<lparr>ignoringMouseDown := ignoringMouseDown ?s1\<rparr>"
    by simp
  then show ?thesis
    by simp
qed

text \<open>
  Claim C5. A \<open>start\<close> whose event carries a list of touches appends no instance. While a
  commit is already deferred it changes nothing but, possibly, the flag \<open>ignoringMouseDown\<close>:
  the deferred commit, the timers and the collection stay as they are; a second
  \<open>touchstart\<close> that follows a first one changes nothing at all. Otherwise, unless it
  returns early or throws, it stores the commit and arms one timer of 80 units under a fresh
  handle; when that timer fires, the stored commit runs and the store is cleared, and the
  timer is gone. In every state the component can reach, at most one delayed commit is armed.
\<close>

theorem touch_start_defers:
  assumes "touches event \<noteq> None"
  shows "ripples (state_of (start h event opts cb s)) = ripples s
    \<and> (startTimerCommit s \<noteq> None \<longrightarrow>
         state_of (start h event opts cb s)
           = s\<lparr>ignoringMouseDown := ignoringMouseDown (state_of (start h event opts cb s))\<rparr>)
    \<and> (etype event = Some ''touchstart'' \<and> touches event \<noteq> Some []
          \<and> etype event' = Some ''touchstart'' \<and> touches event' \<noteq> None \<longrightarrow>
         state_of (start h' event' opts' cb' (state_of (start h event opts cb s)))
           = state_of (start h event opts cb s))
    \<and> (startTimerCommit s = None \<and> \<not> suppressed event s
          \<and> rippleParams h event opts cb = Inr p \<longrightarrow>
         start h event opts cb s
           = Inr ((afterFlag event s)\<lparr>startTimerCommit := Some p,
                timers := timers s @ [(nextTimer s, 80, CommitTask)],
                startTimer := Some (nextTimer s), nextTimer := nextTimer s + 1\<rparr>)
         \<and> (timers_ok s \<longrightarrow>
              fireTimer (nextTimer s) (state_of (start h event opts cb s))
                = (startCommit p (afterFlag event s))\<lparr>startTimerCommit := None,
                     startTimer := Some (nextTimer s), nextTimer := nextTimer s + 1\<rparr>))
    \<and> length (filter isCommit (timers (run acts mounted))) \<le> 1"
proof (intro conjI impI)
  show "ripples (state_of (start h event opts cb s)) = ripples s"
    by (rule start_touch_ripples [OF assms])
next
  assume "startTimerCommit s \<noteq> None"
  then show "state_of (start h event opts cb s)
      = s\<lparr>ignoringMouseDown := ignoringMouseDown (state_of (start h event opts cb s))\<rparr>"
    by (rule start_touch_pending [OF assms])
next
  assume "etype event = Some ''touchstart'' \<and> touches event \<noteq> Some []
      \<and> etype event' = Some ''touchstart'' \<and> touches event' \<noteq> None"
  then show "state_of (start h' event' opts' cb' (state_of (start h event opts cb s)))
      = state_of (start h event opts cb s)"
    using assms by (intro second_touchstart) simp_all
next
  assume a: "startTimerCommit s = None \<and> \<not> suppressed event s
      \<and> rippleParams h event opts cb = Inr p"
  then have d: "start h event opts cb s
      = Inr (setStartTimer CommitTask DELAY_RIPPLE ((afterFlag event s)\<lparr>startTimerCommit := Some p\<rparr>))"
    using assms by (intro start_defers) simp_all
  then show "start h event opts cb s
      = Inr ((afterFlag event s)\<lparr>startTimerCommit := Some p,
           timers := timers s @ [(nextTimer s, 80, CommitTask)],
           startTimer := Some (nextTimer s), nextTimer := nextTimer s + 1\<rparr>)"
    by (simp add: setStartTimer_def DELAY_RIPPLE_def)
  assume ok: "timers_ok s"
  then have "timers_ok (afterFlag event s)"
    by (simp add: timers_ok_same [of "afterFlag event s" s])
  then show "fireTimer (nextTimer s) (state_of (start h event opts cb s))
      = (startCommit p (afterFlag event s))\<lparr>startTimerCommit := None,
           startTimer := Some (nextTimer s), nextTimer := nextTimer s + 1\<rparr>"
    using fire_armed_commit [where s = "afterFlag event s" and p = p and d = DELAY_RIPPLE]
    by (simp add: d)
next
  show "length (filter isCommit (timers (run acts mounted))) \<le> 1"
    by (rule at_most_one_commit_timer [OF deferral_ok_reachable])
qed

theorem touch_start_defers_witness:
  "touches (touchStart 60 30) \<noteq> None \<and> startTimerCommit mounted = None
   \<and> \<not> suppressed (touchStart 60 30) mounted \<and> timers_ok mounted
   \<and> rippleParams exampleHost (touchStart 60 30) emptyOptions (Some 1)
       = Inr (Params False (Num 50) (Num 20) (Num (sqrt 14248)) (Some 1))
   \<and> touching = state_of (start exampleHost (touchStart 60 30) emptyOptions (Some 1) mounted)
   \<and> ripples touching = []
   \<and> startTimerCommit touching
       = Some (Params False (Num 50) (Num 20) (Num (sqrt 14248)) (Some 1))
   \<and> timers touching = [(0, 80, CommitTask)] \<and> startTimer touching = Some 0
   \<and> ripples (fireTimer 0 touching)
       = [\<lparr>key = 0, timeout = 550, pulsate_prop = False, rippleX = Num 50, rippleY = Num 20,
           rippleSize = Num (sqrt 14248)\<rparr>]
   \<and> startTimerCommit (fireTimer 0 touching) = None \<and> timers (fireTimer 0 touching) = []
   \<and> etype (touchStart 60 30) = Some ''touchstart'' \<and> touches (touchStart 60 30) \<noteq> Some []
   \<and> etype (touchStart 20 40) = Some ''touchstart'' \<and> touches (touchStart 20 40) \<noteq> None
   \<and> state_of (start exampleHost (touchStart 20 40) emptyOptions (Some 2) touching) = touching
   \<and> length (filter isCommit (timers (run
         [Start exampleHost (touchStart 60 30) emptyOptions (Some 1),
          Start exampleHost (touchStart 20 40) emptyOptions (Some 2)] mounted))) \<le> 1"
  using touch_start_defers [where event = "touchStart 60 30" and h = exampleHost
        and opts = emptyOptions and cb = "Some 1" and s = mounted
        and p = "Params False (Num 50) (Num 20) (Num (sqrt 14248)) (Some 1)"
        and event' = "touchStart 20 40" and h' = exampleHost and opts' = emptyOptions
        and cb' = "Some 2"
        and acts = "[Start exampleHost (touchStart 60 30) emptyOptions (Some 1),
          Start exampleHost (touchStart 20 40) emptyOptions (Some 2)]"]
    touch_start_defers [where event = "touchStart 20 40" and h = exampleHost
        and opts = emptyOptions and cb = "Some 2" and s = touching and acts = "[]"
        and event' = "touchStart 20 40" and h' = exampleHost and opts' = emptyOptions
        and cb' = "Some 2"]
  by (simp add: touching_def engine_defs example_defs js_defs afterFlag_def isCommit_def)

subsection \<open>The early commit of \<open>stop\<close>\<close>

text \<open>
  Claim C6. A \<open>stop\<close> with a \<open>touchend\<close> event while a commit is deferred cancels the
  timer in \<open>startTimer\<close>, commits the deferred ripple at once, clears the store and arms a
  timer of delay 0 that calls \<open>stop\<close> with the same event and callback; when that timer
  fires, \<open>stop\<close> runs again and removes the instance at index 0. So on an empty collection
  with nothing deferred, a touch \<open>start\<close> followed by such a \<open>stop\<close> before the 80 units
  have passed leaves the collection empty, then holding the one new instance, and empty
  again once the timer has fired.
\<close>

theorem touchend_commits_early:
  assumes ev: "etype event = Some ''touchend''" and p: "startTimerCommit s = Some p"
  shows "stop event cb s
      = (startCommit p s)\<lparr>startTimerCommit := None,
           timers := filter (\<lambda>(i, d, t). Some i \<noteq> startTimer s) (timers s)
                       @ [(nextTimer s, 0, StopTask event cb)],
           startTimer := Some (nextTimer s), nextTimer := nextTimer s + 1\<rparr>
    \<and> ripples (stop event cb s) = ripples s @ [instance_of (nextKey s) p]
    \<and> (timers_ok s \<longrightarrow>
         fireTimer (nextTimer s) (stop event cb s)
           = stop event cb ((stop event cb s)
               \<lparr>timers := filter (\<lambda>(i, d, t). Some i \<noteq> startTimer s) (timers s)\<rparr>)
         \<and> ripples (fireTimer (nextTimer s) (stop event cb s))
           = drop 1 (ripples s @ [instance_of (nextKey s) p]))
    \<and> (touches ev' \<noteq> None \<and> \<not> suppressed ev' s' \<and> startTimerCommit s' = None
          \<and> ripples s' = [] \<and> timers_ok s' \<and> rippleParams h ev' opts cb' = Inr p' \<longrightarrow>
         ripples (run [Start h ev' opts cb'] s') = []
         \<and> ripples (run [Start h ev' opts cb', Stop event cb] s')
             = [instance_of (nextKey s') p']
         \<and> ripples (run [Start h ev' opts cb', Stop event cb, Fire (nextTimer s' + 1)] s')
             = [])"
proof (intro conjI impI)
  show eq: "stop event cb s
      = (startCommit p s)\<lparr>startTimerCommit := None,
           timers := filter (\<lambda>(i, d, t). Some i \<noteq> startTimer s) (timers s)
                       @ [(nextTimer s, 0, StopTask event cb)],
           startTimer := Some (nextTimer s), nextTimer := nextTimer s + 1\<rparr>"
    by (cases p) (simp add: stop_forceFire [OF ev p] setStartTimer_def clearTimeout_def)
  show "ripples (stop event cb s) = ripples s @ [instance_of (nextKey s) p]"
    by (simp add: eq ripples_startCommit)
  { assume ok: "timers_ok s"
    let ?ts = "filter (\<lambda>(i, d, t). Some i \<noteq> startTimer s) (timers s)"
    have all: "list_all (\<lambda>(i, d, t). i < nextTimer s) ?ts"
      using ok by (simp add: timers_ok_def list_all_filter)
    have ts: "timers (stop event cb s) = ?ts @ [(nextTimer s, 0, StopTask event cb)]"
      by (simp add: eq)
    show "fireTimer (nextTimer s) (stop event cb s)
        = stop event cb ((stop event cb s)\<lparr>timers := ?ts\<rparr>)"
      using fireTimer_fresh [OF all ts] by (simp add: runTask_def)
    show "ripples (fireTimer (nextTimer s) (stop event cb s))
        = drop 1 (ripples s @ [instance_of (nextKey s) p])"
      by (rule forceFire_then_stop [OF ok ev p]) }
next
  assume a: "touches ev' \<noteq> None \<and> \<not> suppressed ev' s' \<and> startTimerCommit s' = None
      \<and> ripples s' = [] \<and> timers_ok s' \<and> rippleParams h ev' opts cb' = Inr p'"
  let ?s1 = "state_of (start h ev' opts cb' s')"
  have s1: "?s1 = setStartTimer CommitTask DELAY_RIPPLE
      ((afterFlag ev' s')\<lparr>startTimerCommit := Some p'\<rparr>)"
    using a by (simp add: start_defers)
  have ok1: "timers_ok ?s1"
    using a by (simp add: s1 timers_ok_def setStartTimer_def list_all_less_mono
        fresh_not_in_handles)
  have f1: "startTimerCommit ?s1 = Some p'" "ripples ?s1 = []" "nextKey ?s1 = nextKey s'"
    "nextTimer ?s1 = nextTimer s' + 1"
    using a by (simp_all add: s1 setStartTimer_def)
  show "ripples (run [Start h ev' opts cb'] s') = []"
    by (simp add: f1)
  show "ripples (run [Start h ev' opts cb', Stop event cb] s') = [instance_of (nextKey s') p']"
    using stop_forceFire [OF ev f1(1), of cb]
    by (simp add: setStartTimer_def ripples_startCommit f1)
  show "ripples (run [Start h ev' opts cb', Stop event cb, Fire (nextTimer s' + 1)] s') = []"
    using forceFire_then_stop [OF ok1 ev f1(1), of cb] by (simp add: f1)
qed

theorem touchend_commits_early_witness:
  "etype touchEnd = Some ''touchend''
   \<and> startTimerCommit touching
       = Some (Params False (Num 50) (Num 20) (Num (sqrt 14248)) (Some 1))
   \<and> timers touching = [(0, 80, CommitTask)] \<and> timers_ok touching
   \<and> ripples touching = []
   \<and> ripples (stop touchEnd (Some 2) touching)
       = [\<lparr>key = 0, timeout = 550, pulsate_prop = False, rippleX = Num 50, rippleY = Num 20,
           rippleSize = Num (sqrt 14248)\<rparr>]
   \<and> startTimerCommit (stop touchEnd (Some 2) touching) = None
   \<and> timers (stop touchEnd (Some 2) touching) = [(1, 0, StopTask touchEnd (Some 2))]
   \<and> ripples (fireTimer 1 (stop touchEnd (Some 2) touching)) = []
   \<and> timers (fireTimer 1 (stop touchEnd (Some 2) touching)) = []
   \<and> touches (touchStart 60 30) \<noteq> None \<and> \<not> suppressed (touchStart 60 30) mounted
   \<and> ripples (run [Start exampleHost (touchStart 60 30) emptyOptions (Some 1),
                    Stop touchEnd (Some 2), Fire 1] mounted) = []"
  using touchend_commits_early [where event = touchEnd and s = touching and cb = "Some 2"
      and p = "Params False (Num 50) (Num 20) (Num (sqrt 14248)) (Some 1)"
      and ev' = "touchStart 60 30" and s' = mounted and h = exampleHost and opts = emptyOptions
      and cb' = "Some 1" and p' = "Params False (Num 50) (Num 20) (Num (sqrt 14248)) (Some 1)"]
  by (simp add: touching_def engine_defs example_defs js_defs afterFlag_def)

subsection \<open>Callbacks and renders\<close>

lemma render_idle: "\<not> ripplesChanged s \<Longrightarrow> render s = s"
  by (simp add: render_def)

lemma render_changed:
  assumes "ripplesChanged s"
  shows "render s = s\<lparr>ripplesChanged := False, fired := fired s @ called s, rippleCallback := None\<rparr>"
  using assms by (cases "rippleCallback s") (simp_all add: render_def ripplesEffect_def called_def)

lemma render_render: "render (render s) = render s"
  by (cases "ripplesChanged s") (simp_all add: render_idle render_changed)

lemma fired_stop: "fired (stop event cb s) = fired s"
  by (cases "startTimerCommit s")
    (simp_all add: stop_def Let_def setStartTimer_def)

lemma fired_start: "fired (state_of (start h event opts cb s)) = fired s"
  using start_cases [of h event opts cb s]
  by (auto simp: setStartTimer_def)

text \<open>
  Claim C7, as amended. A \<open>stop\<close> on an empty collection that does not take the branch of
  the early commit leaves the collection as it is and asks for no render; it cancels the timer
  in \<open>startTimer\<close>, clears the deferred commit and overwrites the stored callback with the
  new one, whatever was stored. It calls nothing. The new callback is called by the next
  render only if a change of the collection made by another call is still to be rendered;
  otherwise that render does nothing and the callback stays stored.
\<close>

theorem stop_on_empty:
  assumes "ripples s = []" and "\<not> forceFire event s"
  shows "stop event cb s
      = (clearTimeout (startTimer s) s)\<lparr>startTimerCommit := None, rippleCallback := cb\<rparr>
    \<and> ripples (stop event cb s) = ripples s
    \<and> ripplesChanged (stop event cb s) = ripplesChanged s
    \<and> rippleCallback (stop event cb s) = cb
    \<and> fired (stop event cb s) = fired s
    \<and> (\<not> ripplesChanged s \<longrightarrow> render (stop event cb s) = stop event cb s)
    \<and> (ripplesChanged s \<longrightarrow>
         fired (render (stop event cb s)) = fired s @ (case cb of Some c \<Rightarrow> [c] | None \<Rightarrow> []))"
proof -
  have eq: "stop event cb s
      = (clearTimeout (startTimer s) s)\<lparr>startTimerCommit := None, rippleCallback := cb\<rparr>"
    using assms by (simp add: stop_plain clearTimeout_def)
  show ?thesis
    by (simp add: eq assms(1) render_idle render_changed called_def)
qed

theorem stop_on_empty_witness:
  "ripples waiting = [] \<and> \<not> forceFire (mouseUp 60 30) waiting
   \<and> rippleCallback waiting = Some 4 \<and> fired waiting = [] \<and> \<not> ripplesChanged waiting
   \<and> ripples (stop (mouseUp 60 30) (Some 5) waiting) = []
   \<and> rippleCallback (stop (mouseUp 60 30) (Some 5) waiting) = Some 5
   \<and> render (stop (mouseUp 60 30) (Some 5) waiting) = stop (mouseUp 60 30) (Some 5) waiting
   \<and> fired (render (stop (mouseUp 60 30) (Some 5) waiting)) = []
   \<and> ripples pressed = [] \<and> \<not> forceFire (mouseUp 60 30) pressed
   \<and> rippleCallback pressed = Some 2 \<and> ripplesChanged pressed
   \<and> fired (render (stop (mouseUp 60 30) (Some 3) pressed)) = [3]"
  using stop_on_empty [where s = waiting and event = "mouseUp 60 30" and cb = "Some 5"]
    stop_on_empty [where s = pressed and event = "mouseUp 60 30" and cb = "Some 3"]
  by (simp add: waiting_def pressed_def engine_defs example_defs js_defs)

text \<open>
  Claim C7 as stated fails when the collection is empty and a touch is deferred: a \<open>stop\<close>
  with a \<open>touchend\<close> event then adds the deferred instance to the collection, and the
  callback stored is the one given to \<open>start\<close> (1), not the one given to \<open>stop\<close> (2).
\<close>

theorem stop_on_empty_counterexample:
  "ripples touching = []
   \<and> ripples (stop touchEnd (Some 2) touching)
       = [\<lparr>key = 0, timeout = 550, pulsate_prop = False, rippleX = Num 50, rippleY = Num 20,
           rippleSize = Num (sqrt 14248)\<rparr>]
   \<and> rippleCallback (stop touchEnd (Some 2) touching) = Some 1"
  by (simp add: touching_def engine_defs example_defs js_defs)

subsection \<open>\<open>pulsate\<close>\<close>

lemma pulsate_commits:
  "pulsate h arg s
     = Inr (startCommit (Params True
         (Num (math_round (rect_width (boxOf h pulsateOptions) / 2)))
         (Num (math_round (rect_height (boxOf h pulsateOptions) / 2)))
         (Num (centeredSize (rect_width (boxOf h pulsateOptions))
                            (rect_height (boxOf h pulsateOptions)))) None) s)"
proof -
  have c: "centerOf h pulsateOptions"
    by (simp add: centerOf_def pulsateOptions_def emptyOptions_def)
  have n: "\<not> suppressed emptyEvent s" "touches emptyEvent = None"
    "afterFlag emptyEvent s = s" "pulsate_opt pulsateOptions = Some True"
    by (simp_all add: suppressed_def emptyEvent_def afterFlag_def pulsateOptions_def)
  show ?thesis
    unfolding pulsate_def
    using start_commits [OF n(1,2) rippleParams_center [OF c, of emptyEvent None]]
    by (simp add: n)
qed

text \<open>
  Claim C8, as amended. \<open>pulsate\<close> drops whatever argument it is given: it is \<open>start\<close>
  with the empty event, the options \<open>{pulsate: true}\<close> and no callback. It never throws and
  never defers; it appends one instance with \<open>pulsate\<close> set, at the centre of the measured
  box (the zero box when nothing is mounted) and with the centred diameter, and it stores no
  callback. On an empty collection that instance is the only one.
\<close>

theorem pulsate_is_start:
  "pulsate h arg s = start h emptyEvent pulsateOptions None s
   \<and> ripples (state_of (pulsate h arg s))
       = ripples s @
         [\<lparr>key = nextKey s, timeout = DURATION, pulsate_prop = True,
           rippleX = Num (math_round (rect_width (boxOf h pulsateOptions) / 2)),
           rippleY = Num (math_round (rect_height (boxOf h pulsateOptions) / 2)),
           rippleSize = Num (centeredSize (rect_width (boxOf h pulsateOptions))
                                          (rect_height (boxOf h pulsateOptions)))\<rparr>]
   \<and> rippleCallback (state_of (pulsate h arg s)) = None
   \<and> (ripples s = [] \<longrightarrow> length (ripples (state_of (pulsate h arg s))) = 1)"
proof (intro conjI impI)
  show "pulsate h arg s = start h emptyEvent pulsateOptions None s"
    by (simp add: pulsate_def)
  show "ripples (state_of (pulsate h arg s))
       = ripples s @
         [\<lparr>key = nextKey s, timeout = DURATION, pulsate_prop = True,
           rippleX = Num (math_round (rect_width (boxOf h pulsateOptions) / 2)),
           rippleY = Num (math_round (rect_height (boxOf h pulsateOptions) / 2)),
           rippleSize = Num (centeredSize (rect_width (boxOf h pulsateOptions))
                                          (rect_height (boxOf h pulsateOptions)))\<rparr>]"
    by (simp add: pulsate_commits)
  show "rippleCallback (state_of (pulsate h arg s)) = None"
    by (simp add: pulsate_commits)
  assume "ripples s = []"
  then show "length (ripples (state_of (pulsate h arg s))) = 1"
    by (simp add: pulsate_commits)
qed

theorem pulsate_is_start_witness:
  "ripples mounted = []
   \<and> pulsate bareHost (Some 7) mounted = start bareHost emptyEvent pulsateOptions None mounted
   \<and> ripples (state_of (pulsate bareHost (Some 7) mounted))
       = [\<lparr>key = 0, timeout = 550, pulsate_prop = True, rippleX = Num 0, rippleY = Num 0,
           rippleSize = Num 1\<rparr>]
   \<and> ripples (state_of (pulsate exampleHost (Some 7) mounted))
       = [\<lparr>key = 0, timeout = 550, pulsate_prop = True, rippleX = Num 50, rippleY = Num 25,
           rippleSize = Num (sqrt 7500)\<rparr>]
   \<and> rippleCallback (state_of (pulsate exampleHost (Some 7) mounted)) = None"
proof -
  have b: "boxOf bareHost pulsateOptions
      = \<lparr>rect_width = 0, rect_height = 0, rect_left = 0, rect_top = 0\<rparr>"
    "boxOf exampleHost pulsateOptions
      = \<lparr>rect_width = 100, rect_height = 50, rect_left = 10, rect_top = 10\<rparr>"
    by (simp_all add: boxOf_def elementOf_def rectOf_def example_defs)
  have z: "centeredSize 0 0 = 1"
    by (simp add: centeredSize_def evenInteger_def)
  have m: "math_round 0 = 0" "math_round 50 = 50" "math_round 25 = 25"
    by (simp_all add: math_round_def)
  have i: "ripples mounted = []" "nextKey mounted = 0"
    by (simp_all add: mounted_def)
  note bare = pulsate_is_start [of bareHost "Some 7" mounted]
  note example = pulsate_is_start [of exampleHost "Some 7" mounted]
  have 1: "pulsate bareHost (Some 7) mounted = start bareHost emptyEvent pulsateOptions None mounted"
    using bare by (rule conjunct1)
  have 2: "ripples (state_of (pulsate bareHost (Some 7) mounted))
       = [\<lparr>key = 0, timeout = 550, pulsate_prop = True, rippleX = Num 0, rippleY = Num 0,
           rippleSize = Num 1\<rparr>]"
    using bare [THEN conjunct2, THEN conjunct1] by (simp add: b z m i DURATION_def)
  have 3: "ripples (state_of (pulsate exampleHost (Some 7) mounted))
       = [\<lparr>key = 0, timeout = 550, pulsate_prop = True, rippleX = Num 50, rippleY = Num 25,
           rippleSize = Num (sqrt 7500)\<rparr>]"
    using example [THEN conjunct2, THEN conjunct1]
    by (simp add: b m i centeredSize_100_50 DURATION_def)
  have 4: "rippleCallback (state_of (pulsate exampleHost (Some 7) mounted)) = None"
    using example [THEN conjunct2, THEN conjunct2, THEN conjunct1] .
  from i(1) 1 2 3 4 show ?thesis
    by (intro conjI)
qed

text \<open>
  Claim C8 as stated fails for every callback that is given: \<open>pulsate\<close> with callback 7
  stores no callback, \<open>start\<close> with the same event, options and callback 7 stores it.
\<close>

theorem pulsate_callback_counterexample:
  "rippleCallback (state_of (pulsate exampleHost (Some 7) mounted)) = None
   \<and> rippleCallback (state_of (start exampleHost emptyEvent pulsateOptions (Some 7) mounted))
       = Some 7
   \<and> pulsate exampleHost (Some 7) mounted
       \<noteq> start exampleHost emptyEvent pulsateOptions (Some 7) mounted"
proof -
  have 1: "rippleCallback (state_of (pulsate exampleHost (Some 7) mounted)) = None"
    by (simp add: pulsate_commits)
  have c: "centerOf exampleHost pulsateOptions"
    by (simp add: centerOf_def pulsateOptions_def emptyOptions_def)
  have n: "\<not> suppressed emptyEvent mounted" "touches emptyEvent = None"
    by (simp_all add: suppressed_def emptyEvent_def)
  have 2: "rippleCallback (state_of (start exampleHost emptyEvent pulsateOptions (Some 7) mounted))
      = Some 7"
    using start_commits [OF n rippleParams_center [OF c, of emptyEvent "Some 7"]] by simp
  from 1 2 show ?thesis
    by (metis option.distinct(1))
qed

subsection \<open>When a stored callback is called\<close>

lemma rippleParams_cb: "rippleParams h event opts cb = Inr p \<Longrightarrow> cb_of p = cb"
  by (auto simp: rippleParams_def Let_def split: if_splits option.splits list.splits sum.splits)

lemma rippleCallback_startCommit [simp]: "rippleCallback (startCommit p s) = cb_of p"
  by (cases p) simp

text \<open>
  Claim C9, as amended. Neither \<open>start\<close> nor \<open>stop\<close> calls a callback. A render with no
  change of the collection to show calls nothing; a render that shows a change calls the
  callback stored at that moment, once, and clears the store, and a second render calls
  nothing more. So after a \<open>start\<close> that commits at once, or a \<open>stop\<close> that removes an
  instance, the next render shows the changed collection and calls the callback of that
  call exactly once, provided no other call has overwritten it in between.
\<close>

theorem callback_fires_after_render:
  "fired (state_of (start h event opts cb s)) = fired s
   \<and> fired (stop event cb s) = fired s
   \<and> (\<not> ripplesChanged s \<longrightarrow> render s = s)
   \<and> (ripplesChanged s \<longrightarrow>
        render s = s\<lparr>ripplesChanged := False, fired := fired s @ called s,
                     rippleCallback := None\<rparr>)
   \<and> render (render s) = render s
   \<and> (\<not> suppressed event s \<and> touches event = None
         \<and> rippleParams h event opts (Some c) = Inr p \<longrightarrow>
        ripples (render (state_of (start h event opts (Some c) s)))
          = ripples s @ [instance_of (nextKey s) p]
        \<and> fired (render (state_of (start h event opts (Some c) s))) = fired s @ [c]
        \<and> rippleCallback (render (state_of (start h event opts (Some c) s))) = None)
   \<and> (ripples s \<noteq> [] \<and> \<not> forceFire event s \<longrightarrow>
        ripples (render (stop event (Some c) s)) = drop 1 (ripples s)
        \<and> fired (render (stop event (Some c) s)) = fired s @ [c]
        \<and> rippleCallback (render (stop event (Some c) s)) = None)"
proof (intro conjI impI)
  show "fired (state_of (start h event opts cb s)) = fired s"
    by (rule fired_start)
  show "fired (stop event cb s) = fired s"
    by (rule fired_stop)
  show "render (render s) = render s"
    by (rule render_render)
  { assume "\<not> ripplesChanged s"
    then show "render s = s"
      by (rule render_idle) }
  { assume "ripplesChanged s"
    then show "render s = s\<lparr>ripplesChanged := False, fired := fired s @ called s,
        rippleCallback := None\<rparr>"
      by (rule render_changed) }
  { assume a: "\<not> suppressed event s \<and> touches event = None
        \<and> rippleParams h event opts (Some c) = Inr p"
    then have st: "state_of (start h event opts (Some c) s) = startCommit p (afterFlag event s)"
      by (simp add: start_commits)
    have cb: "cb_of p = Some c"
      using a rippleParams_cb by blast
    show "ripples (render (state_of (start h event opts (Some c) s)))
        = ripples s @ [instance_of (nextKey s) p]"
      by (simp add: st render_changed ripples_startCommit)
    show "fired (render (state_of (start h event opts (Some c) s))) = fired s @ [c]"
      by (simp add: st render_changed called_def cb)
    show "rippleCallback (render (state_of (start h event opts (Some c) s))) = None"
      by (simp add: st render_changed) }
  { assume a: "ripples s \<noteq> [] \<and> \<not> forceFire event s"
    then have ch: "ripplesChanged (stop event (Some c) s)"
      by (simp add: stop_plain)
    show "ripples (render (stop event (Some c) s)) = drop 1 (ripples s)"
      using a by (simp add: render_changed [OF ch]) (simp add: stop_plain)
    show "fired (render (stop event (Some c) s)) = fired s @ [c]"
      using a by (simp add: render_changed [OF ch] called_def) (simp add: stop_plain)
    show "rippleCallback (render (stop event (Some c) s)) = None"
      by (simp add: render_changed [OF ch]) }
qed

theorem callback_fires_after_render_witness:
  "\<not> ripplesChanged mounted \<and> render mounted = mounted
   \<and> \<not> suppressed (mouseDown 60 30) mounted \<and> touches (mouseDown 60 30) = None
   \<and> fired (state_of (start exampleHost (mouseDown 60 30) emptyOptions (Some 1) mounted)) = []
   \<and> ripplesChanged (state_of (start exampleHost (mouseDown 60 30) emptyOptions (Some 1) mounted))
   \<and> fired (render (state_of (start exampleHost (mouseDown 60 30) emptyOptions (Some 1) mounted)))
       = [1]
   \<and> map key (ripples
        (render (state_of (start exampleHost (mouseDown 60 30) emptyOptions (Some 1) mounted))))
       = [0]
   \<and> fired (render (render
        (state_of (start exampleHost (mouseDown 60 30) emptyOptions (Some 1) mounted)))) = [1]
   \<and> ripples twoRipples \<noteq> [] \<and> \<not> forceFire (mouseUp 60 30) twoRipples
   \<and> fired (stop (mouseUp 60 30) (Some 2) twoRipples) = []
   \<and> fired (render (stop (mouseUp 60 30) (Some 2) twoRipples)) = [2]
   \<and> map key (ripples (render (stop (mouseUp 60 30) (Some 2) twoRipples))) = [1]"
  using callback_fires_after_render [where s = mounted and event = "mouseDown 60 30"
      and h = exampleHost and opts = emptyOptions and cb = "Some 1" and c = 1
      and p = "Params False (Num 50) (Num 20) (Num (sqrt 14248)) (Some 1)"]
    callback_fires_after_render [where s = twoRipples and event = "mouseUp 60 30"
      and h = exampleHost and opts = emptyOptions and cb = "Some 2" and c = 2]
  by (simp add: twoRipples_def engine_defs example_defs js_defs called_def)

text \<open>
  Claim C9 as stated fails, since the store holds one callback. Two calls of \<open>start\<close> in
  one turn store callbacks 1 and 2; the render calls 2 alone and 1 is gone. A \<open>stop\<close> on
  the empty collection stores callback 4; the next \<open>start\<close> overwrites it with 5 before
  anything is rendered, and 4 is never called.
\<close>

theorem callback_lost_counterexample:
  "rippleCallback (run [Start exampleHost (mouseDown 60 30) emptyOptions (Some 1)] mounted)
       = Some 1
   \<and> map key (ripples (run [Start exampleHost (mouseDown 60 30) emptyOptions (Some 1)] mounted))
       = [0]
   \<and> fired (run [Start exampleHost (mouseDown 60 30) emptyOptions (Some 1),
                  Start exampleHost (mouseDown 20 40) emptyOptions (Some 2),
                  Render, Render] mounted) = [2]
   \<and> rippleCallback (run [Start exampleHost (mouseDown 60 30) emptyOptions (Some 1),
                  Start exampleHost (mouseDown 20 40) emptyOptions (Some 2),
                  Render, Render] mounted) = None
   \<and> rippleCallback (run [Stop (mouseUp 60 30) (Some 4)] mounted) = Some 4
   \<and> fired (run [Stop (mouseUp 60 30) (Some 4), Render,
                  Start exampleHost (mouseDown 60 30) emptyOptions (Some 5), Render,
                  Stop (mouseUp 60 30) None, Render] mounted) = [5]
   \<and> rippleCallback (run [Stop (mouseUp 60 30) (Some 4), Render,
                  Start exampleHost (mouseDown 60 30) emptyOptions (Some 5), Render,
                  Stop (mouseUp 60 30) None, Render] mounted) = None"
  by (simp add: engine_defs example_defs js_defs)

end
